theory Spec2Isabelle
  imports Complex_Main "HOL-Library.AList"
begin

section \<open>JavaScript values\<close>

text \<open>
  The values that flow through \<^verbatim>\<open>plimsoll.js\<close>: criteria, property maps, rows and
  statement arguments. An object is the list of its own enumerable entries in the order
  \<^verbatim>\<open>Object.entries\<close> yields them; property names are unique in such a list.
  \<open>NOW\<close> is the module's placeholder object \<^verbatim>\<open>const NOW = { NOW:'NOW' }\<close>: the
  code only ever compares it by identity (\<^verbatim>\<open>it === NOW\<close>), so it is a value of its
  own, different from every object a caller can build.
  Numbers are rationals, \<open>JNaN\<close> and the two infinities (\<open>JInfinity True\<close> is
  \<^verbatim>\<open>+Infinity\<close>).
  \<open>JInherited k\<close> is what a plain object gives under the name \<open>k\<close> when it has no
  property of its own there and \<^verbatim>\<open>Object.prototype\<close> has one: the built-in function of
  that name, or \<^verbatim>\<open>Object.prototype\<close> itself for \<^verbatim>\<open>__proto__\<close>.
\<close>

datatype jsval =
    JUndefined
  | JNull
  | JBool bool
  | JNum rat
  | JNaN
  | JInfinity bool
  | JStr string
  | JArr "jsval list"
  | JObj "(string \<times> jsval) list"
  | NOW
  | JInherited string

text \<open>\<^verbatim>\<open>ToBoolean\<close>, as used by \<^verbatim>\<open>!x\<close>, \<^verbatim>\<open>if(x)\<close> and \<^verbatim>\<open>a || b\<close>.\<close>

definition truthy :: "jsval \<Rightarrow> bool" where
  "truthy v =
     (case v of
        JUndefined \<Rightarrow> False
      | JNull \<Rightarrow> False
      | JBool b \<Rightarrow> b
      | JNum q \<Rightarrow> q \<noteq> 0
      | JNaN \<Rightarrow> False
      | JStr s \<Rightarrow> s \<noteq> []
      | _ \<Rightarrow> True)"

text \<open>\<^verbatim>\<open>Number.isSafeInteger\<close>: a number whose value is integral and at most
  \<open>2^53 - 1\<close> in magnitude.\<close>

definition isSafeInteger :: "jsval \<Rightarrow> bool" where
  "isSafeInteger v =
     (case v of
        JNum q \<Rightarrow> of_int \<lfloor>q\<rfloor> = q \<and> \<bar>q\<bar> \<le> 2 ^ 53 - 1
      | _ \<Rightarrow> False)"

text \<open>The names every plain object inherits from \<^verbatim>\<open>Object.prototype\<close>.\<close>

definition Object_prototype_names :: "string list" where
  "Object_prototype_names =
     [''constructor'', ''__defineGetter__'', ''__defineSetter__'', ''hasOwnProperty'',
      ''__lookupGetter__'', ''__lookupSetter__'', ''isPrototypeOf'', ''propertyIsEnumerable'',
      ''toString'', ''valueOf'', ''__proto__'', ''toLocaleString'']"

text \<open>Reading a property (\<^verbatim>\<open>o[k]\<close>) of a plain object: its own property when it has
  one, the inherited member under the names above, \<^verbatim>\<open>undefined\<close> otherwise.\<close>

definition get_prop :: "(string \<times> jsval) list \<Rightarrow> string \<Rightarrow> jsval" where
  "get_prop obj k =
     (case map_of obj k of
        Some v \<Rightarrow> v
      | None \<Rightarrow> if k \<in> set Object_prototype_names then JInherited k else JUndefined)"

text \<open>
  Assigning a property (\<^verbatim>\<open>o[k] = v\<close>): an existing name keeps its position, a new
  name goes to the end. Under the name \<^verbatim>\<open>__proto__\<close> an object without such a
  property of its own gets none: the assignment runs the inherited setter, which ignores
  a primitive \<open>v\<close>. (For an object \<open>v\<close> the setter replaces the prototype; what the
  object inherits afterwards is not followed here.)
\<close>

definition set_prop :: "string \<Rightarrow> jsval \<Rightarrow> (string \<times> jsval) list \<Rightarrow> (string \<times> jsval) list" where
  "set_prop k v obj =
     (if k = ''__proto__'' \<and> map_of obj k = None then obj else AList.update k v obj)"

text \<open>Object spread \<^verbatim>\<open>{ ...a, ...b }\<close>: the entries of \<open>b\<close> are assigned, in their
  order, onto a copy of \<open>a\<close>. An assignment to an existing name keeps its position; a new
  name goes to the end (names that are array indices, which an object lists first, are
  not told apart here: only the order of the entries would differ).\<close>

definition spread :: "('k \<times> 'v) list \<Rightarrow> ('k \<times> 'v) list \<Rightarrow> ('k \<times> 'v) list" where
  "spread a b = fold (\<lambda>(k, v). AList.update k v) b a"

section \<open>Errors\<close>

text \<open>
  Every error the code raises is a plain \<^verbatim>\<open>Error\<close> with a message; the constructors
  carry the names of the specification's taxonomy:
  \<^item> \<open>InvalidArgument\<close>: \<^verbatim>\<open>'Limit must be an integer.'\<close> and the two
    \<^verbatim>\<open>ORDER BY\<close> messages;
  \<^item> \<open>UnsupportedOperator op\<close>: \<^verbatim>\<open>Unrecognised op in criteria: ${op}\<close>;
  \<^item> \<open>InvalidCriteria k v\<close>: \<^verbatim>\<open>'TODO: ' + JSON.stringify({ k, v })\<close>;
  \<^item> \<open>ModelNotFound name\<close>: \<^verbatim>\<open>Model not found: ${name}\<close>;
  \<^item> \<open>NoModelSupplied\<close>: \<^verbatim>\<open>'No model supplied!  ...'\<close>;
  \<^item> \<open>NotImplemented\<close>: \<^verbatim>\<open>No handling for intercepter of this type yet\<close>;
  \<^item> \<open>TypeError\<close>: raised by the language itself (a property of \<^verbatim>\<open>undefined\<close>, a
    call of something that is no function);
  \<^item> \<open>StorageEngineError code msg\<close>: a native error of the storage collaborator, with
    its \<^verbatim>\<open>code\<close> property.
\<close>

datatype js_error =
    InvalidArgument string
  | UnsupportedOperator string
  | InvalidCriteria string jsval
  | ModelNotFound string
  | NoModelSupplied
  | NotImplemented
  | TypeError
  | StorageEngineError string string

text \<open>\<^verbatim>\<open>err.code\<close>: only native errors carry one.\<close>

fun code_of :: "js_error \<Rightarrow> string option" where
  "code_of (StorageEngineError c m) = Some c"
| "code_of _ = None"

section \<open>Models\<close>

text \<open>
  An attribute's configuration, with the properties the code reads: \<^verbatim>\<open>type\<close>
  (only compared with string literals), \<^verbatim>\<open>allowNull\<close>, \<^verbatim>\<open>autoCreatedAt\<close> and
  \<^verbatim>\<open>autoUpdatedAt\<close> (only tested for truth), \<^verbatim>\<open>defaultsTo\<close> (\<open>JUndefined\<close> when
  not given) and \<^verbatim>\<open>model\<close>, the name of the related model.
\<close>

record attr_cfg =
  attr_type :: "string option"
  allowNull :: bool
  defaultsTo :: jsval
  autoCreatedAt :: bool
  autoUpdatedAt :: bool
  attr_model :: "string option"

record model =
  globalId :: string
  tableName :: string
  attributes :: "(string \<times> attr_cfg) list"

text \<open>
  \<^verbatim>\<open>Model.attributes[k]\<close>. The attributes are a plain object, so under a name the
  model does not declare but \<^verbatim>\<open>Object.prototype\<close> has, the read finds the inherited
  member: a function or object on which every property the code asks for (\<^verbatim>\<open>type\<close>,
  \<^verbatim>\<open>allowNull\<close>, \<^verbatim>\<open>model\<close>, ...) is \<^verbatim>\<open>undefined\<close>. \<open>None\<close> is \<^verbatim>\<open>undefined\<close>.
\<close>

definition inherited_cfg :: attr_cfg where
  "inherited_cfg = \<lparr> attr_type = None, allowNull = False, defaultsTo = JUndefined,
                     autoCreatedAt = False, autoUpdatedAt = False, attr_model = None \<rparr>"

definition attribute_of :: "model \<Rightarrow> string \<Rightarrow> attr_cfg option" where
  "attribute_of M k =
     (case map_of (attributes M) k of
        Some cfg \<Rightarrow> Some cfg
      | None \<Rightarrow> if k \<in> set Object_prototype_names then Some inherited_cfg else None)"

text \<open>\<^verbatim>\<open>String.prototype.toLowerCase\<close> and \<^verbatim>\<open>toUpperCase\<close> on the ASCII letters;
  every other character is left as it is.\<close>

definition lower_char :: "char \<Rightarrow> char" where
  "lower_char c =
     (let n = (of_char c :: nat) in if 65 \<le> n \<and> n \<le> 90 then char_of (n + 32) else c)"

definition upper_char :: "char \<Rightarrow> char" where
  "upper_char c =
     (let n = (of_char c :: nat) in if 97 \<le> n \<and> n \<le> 122 then char_of (n - 32) else c)"

definition toLowerCase :: "string \<Rightarrow> string" where
  "toLowerCase s = map lower_char s"

definition toUpperCase :: "string \<Rightarrow> string" where
  "toUpperCase s = map upper_char s"

text \<open>
  \<^verbatim>\<open>initialiseModel(name, Model)\<close>, the data it sets (the operations it attaches are the
  functions \<open>Model_create\<close>, \<open>Model_find\<close>, ... below). \<open>defaultAttributes\<close> is the
  registry's third argument; \<^verbatim>\<open>cloneDeep\<close> copies a value and is the identity here.
\<close>

definition initialiseModel :: "(string \<times> attr_cfg) list \<Rightarrow> string \<Rightarrow> model \<Rightarrow> model" where
  "initialiseModel defaultAttributes name Model =
     Model\<lparr> globalId := name,
            tableName := toLowerCase name,
            attributes := spread defaultAttributes (attributes Model) \<rparr>"

text \<open>The registry \<^verbatim>\<open>plimsoll(pool, models, defaultAttributes)\<close> builds: every
  caller-supplied model, initialised under its name.\<close>

definition plimsoll_models ::
  "(string \<times> model) list \<Rightarrow> (string \<times> attr_cfg) list \<Rightarrow> (string \<times> model) list" where
  "plimsoll_models models defaultAttributes =
     map (\<lambda>(modelName, m). (modelName, initialiseModel defaultAttributes modelName m)) models"

section \<open>The environment\<close>

text \<open>
  A connection is known by a number. \<open>world\<close> is what the builder's execution does
  outside itself, in the order it does it: a connection leased from the pool (a
  \<^verbatim>\<open>pool.connect()\<close> that resolved), a statement sent on a connection
  (\<^verbatim>\<open>client.query(sql, args)\<close>), a connection released (\<^verbatim>\<open>client.release()\<close>).
\<close>

type_synonym client = nat

type_synonym row = "(string \<times> jsval) list"

record qresult =
  rows :: "row list"
  rowCount :: nat

datatype event =
    Leased client
  | Sent client string "jsval list option"
  | Released client

type_synonym world = "event list"

text \<open>
  \<open>env\<close> holds everything the module takes from outside itself:
  \<^item> \<open>fmt_ident\<close>: \<^verbatim>\<open>pg-format\<close>'s \<^verbatim>\<open>ident\<close> on a string (\<^verbatim>\<open>esc.col\<close>,
    \<^verbatim>\<open>esc.table\<close>), which always returns; \<open>fmt_ident_other\<close>: the same function on
    a value that is no string, where it may raise;
  \<^item> \<open>fmt_literal\<close>: \<^verbatim>\<open>pg-format\<close>'s \<^verbatim>\<open>literal\<close> (\<^verbatim>\<open>esc.num\<close>);
  \<^item> \<open>toNumber\<close>: the language's \<^verbatim>\<open>Number(v)\<close>; \<open>JSON_stringify\<close>:
    \<^verbatim>\<open>JSON.stringify(v)\<close>; \<open>Date_now\<close>: the reading of \<^verbatim>\<open>Date.now()\<close> when the
    builder is forced;
  \<^item> \<open>models\<close>: the registry's initialised models, in the order of
    \<^verbatim>\<open>Object.values(models)\<close>;
  \<^item> \<open>pool_connect\<close>: the answer of \<^verbatim>\<open>pool.connect()\<close> in a given world, a
    connection or a rejection; \<open>client_query\<close>: the answer of the storage to a
    statement sent on a connection, which may depend on everything sent before.
\<close>

record env =
  fmt_ident :: "string \<Rightarrow> string"
  fmt_ident_other :: "jsval \<Rightarrow> js_error + string"
  fmt_literal :: "jsval \<Rightarrow> string"
  toNumber :: "jsval \<Rightarrow> jsval"
  JSON_stringify :: "jsval \<Rightarrow> jsval"
  Date_now :: int
  models :: "model list"
  pool_connect :: "world \<Rightarrow> js_error + client"
  client_query :: "world \<Rightarrow> client \<Rightarrow> string \<Rightarrow> jsval list option \<Rightarrow> js_error + qresult"

definition esc_col :: "env \<Rightarrow> jsval \<Rightarrow> js_error + string" where
  "esc_col E v = (case v of JStr s \<Rightarrow> Inr (fmt_ident E s) | _ \<Rightarrow> fmt_ident_other E v)"

section \<open>Strings and loops\<close>

text \<open>The decimal digits of a number, as a template literal \<^verbatim>\<open>$${n}\<close> prints it.\<close>

fun string_of_nat :: "nat \<Rightarrow> string" where
  "string_of_nat n =
     (if n < 10 then [''0123456789'' ! n]
      else string_of_nat (n div 10) @ [''0123456789'' ! (n mod 10)])"

declare string_of_nat.simps [simp del]

text \<open>\<^verbatim>\<open>Array.prototype.join\<close> on an array of strings.\<close>

fun join :: "string \<Rightarrow> string list \<Rightarrow> string" where
  "join sep [] = []"
| "join sep [x] = x"
| "join sep (x # y # ys) = x @ sep @ join sep (y # ys)"

text \<open>\<^verbatim>\<open>forEach\<close> with a body that may raise: the first error ends the loop.\<close>

fun forEach :: "('a \<Rightarrow> 's \<Rightarrow> js_error + 's) \<Rightarrow> 'a list \<Rightarrow> 's \<Rightarrow> js_error + 's" where
  "forEach f [] s = Inr s"
| "forEach f (x # xs) s = (case f x s of Inl e \<Rightarrow> Inl e | Inr s' \<Rightarrow> forEach f xs s')"

text \<open>\<^verbatim>\<open>Array.prototype.map\<close> with a callback that may raise.\<close>

fun mapE :: "('a \<Rightarrow> js_error + 'b) \<Rightarrow> 'a list \<Rightarrow> js_error + 'b list" where
  "mapE f [] = Inr []"
| "mapE f (x # xs) =
     (case f x of
        Inl e \<Rightarrow> Inl e
      | Inr y \<Rightarrow> (case mapE f xs of Inl e \<Rightarrow> Inl e | Inr ys \<Rightarrow> Inr (y # ys)))"

text \<open>\<^verbatim>\<open>Object.entries\<close>: the own entries of an object; the indexed elements of an
  array or a string; nothing for the other primitives; a \<^verbatim>\<open>TypeError\<close> on
  \<^verbatim>\<open>undefined\<close> and \<^verbatim>\<open>null\<close>.\<close>

definition Object_entries :: "jsval \<Rightarrow> js_error + (string \<times> jsval) list" where
  "Object_entries v =
     (case v of
        JUndefined \<Rightarrow> Inl TypeError
      | JNull \<Rightarrow> Inl TypeError
      | JObj kvs \<Rightarrow> Inr kvs
      | JArr vs \<Rightarrow> Inr (zip (map string_of_nat [0..<length vs]) vs)
      | JStr s \<Rightarrow> Inr (zip (map string_of_nat [0..<length s]) (map (\<lambda>c. JStr [c]) s))
      | NOW \<Rightarrow> Inr [(''NOW'', JStr ''NOW'')]
      | _ \<Rightarrow> Inr [])"

text \<open>\<^verbatim>\<open>typeof v === 'object'\<close> and \<^verbatim>\<open>Array.isArray(v)\<close>.\<close>

definition typeof_object :: "jsval \<Rightarrow> bool" where
  "typeof_object v =
     (case v of
        JNull \<Rightarrow> True
      | JArr _ \<Rightarrow> True
      | JObj _ \<Rightarrow> True
      | NOW \<Rightarrow> True
      | JInherited k \<Rightarrow> k = ''__proto__''
      | _ \<Rightarrow> False)"

definition isArray :: "jsval \<Rightarrow> bool" where
  "isArray v = (case v of JArr _ \<Rightarrow> True | _ \<Rightarrow> False)"

section \<open>The criteria compiler\<close>

definition safeOp :: "string \<Rightarrow> js_error + string" where
  "safeOp op =
     (if op = ''<'' \<or> op = ''>'' \<or> op = ''<='' \<or> op = ''>='' \<or> op = ''!=''
      then Inr op else Inl (UnsupportedOperator op))"

text \<open>
  The body of the loop over \<^verbatim>\<open>Object.entries(criteria)\<close> in \<^verbatim>\<open>buildWhereQuery\<close>.
  Its state is the argument array \<open>args\<close>, the counter \<open>argIdx\<close> and the clauses
  \<open>wher\<close>. In the last branch of an operator mapping the value is pushed before the
  template calls \<^verbatim>\<open>safeOp\<close>; when that raises the whole state is lost with it.
\<close>

definition where_op ::
  "env \<Rightarrow> string \<Rightarrow> string \<times> jsval \<Rightarrow> jsval list \<times> nat \<times> string list
     \<Rightarrow> js_error + jsval list \<times> nat \<times> string list" where
  "where_op E k opval st =
     (case (opval, st) of ((op, val), (args, argIdx, wher)) \<Rightarrow>
        if op = ''!='' \<and> val = JNull then
          Inr (args, argIdx, wher @ [fmt_ident E k @ '' IS NOT NULL''])
        else if op = ''!='' \<and> isArray val then
          Inr (args @ [val], argIdx + 1,
               wher @ [''NOT ( '' @ fmt_ident E k @ '' = ANY( $'' @ string_of_nat (argIdx + 1) @ '' ) )''])
        else
          (case safeOp op of
             Inl e \<Rightarrow> Inl e
           | Inr sop \<Rightarrow>
               Inr (args @ [val], argIdx + 1,
                    wher @ [fmt_ident E k @ sop @ ''$'' @ string_of_nat (argIdx + 1)])))"

definition where_entry ::
  "env \<Rightarrow> string \<times> jsval \<Rightarrow> jsval list \<times> nat \<times> string list
     \<Rightarrow> js_error + jsval list \<times> nat \<times> string list" where
  "where_entry E kv st =
     (case (kv, st) of ((k, v), (args, argIdx, wher)) \<Rightarrow>
        if v = JNull then
          Inr (args, argIdx, wher @ [fmt_ident E k @ '' IS NULL''])
        else if isArray v then
          Inr (args @ [v], argIdx + 1,
               wher @ [fmt_ident E k @ ''=ANY($'' @ string_of_nat (argIdx + 1) @ '')''])
        else if typeof_object v then
          (case Object_entries v of
             Inl e \<Rightarrow> Inl e
           | Inr ops \<Rightarrow>
               if length ops \<noteq> 1 then Inl (InvalidCriteria k v)
               else forEach (where_op E k) ops (args, argIdx, wher))
        else
          Inr (args @ [v], argIdx + 1,
               wher @ [fmt_ident E k @ ''=$'' @ string_of_nat (argIdx + 1)]))"

text \<open>\<^verbatim>\<open>buildWhereQuery(criteria, args)\<close> returns the fragment and leaves its bound values
  in \<open>args\<close>; the model returns both.\<close>

definition buildWhereQuery :: "env \<Rightarrow> jsval \<Rightarrow> jsval list \<Rightarrow> js_error + string \<times> jsval list" where
  "buildWhereQuery E criteria args =
     (if \<not> truthy criteria then Inr ([], args)
      else if typeof_object criteria then
        (case Object_entries criteria of
           Inl e \<Rightarrow> Inl e
         | Inr kvs \<Rightarrow>
             (case forEach (where_entry E) kvs (args, length args, []) of
                Inl e \<Rightarrow> Inl e
              | Inr (args', argIdx, wher) \<Rightarrow>
                  if wher = [] then Inr ([], args')
                  else Inr (''WHERE '' @ join '' AND '' wher, args')))
      else Inr (''WHERE id=$'' @ string_of_nat (length args + 1), args @ [criteria]))"

section \<open>The mutation compiler\<close>

text \<open>The \<^verbatim>\<open>switch(type)\<close> of \<^verbatim>\<open>withDefaultValues\<close> and of
  \<^verbatim>\<open>withSelectedValuesCast\<close>: the value that stands in for \<^verbatim>\<open>null\<close>, for the three
  types that have one.\<close>

definition zero_of_type :: "string option \<Rightarrow> jsval option" where
  "zero_of_type t =
     (if t = Some ''string'' then Some (JStr [])
      else if t = Some ''number'' then Some (JNum 0)
      else if t = Some ''boolean'' then Some (JBool False)
      else None)"

text \<open>
  The body of the loop over \<^verbatim>\<open>Object.entries(Model.attributes)\<close> in
  \<^verbatim>\<open>withDefaultValues\<close>; \<open>creating\<close> is the flag of the third argument, absent (false)
  when \<^verbatim>\<open>update\<close> and \<^verbatim>\<open>updateOne\<close> call.
\<close>

definition default_entry :: "bool \<Rightarrow> string \<times> attr_cfg \<Rightarrow> row \<Rightarrow> row" where
  "default_entry creating ac props =
     (case ac of (attr, cfg) \<Rightarrow>
        let props1 =
              (if creating \<and> get_prop props attr = JUndefined \<and> defaultsTo cfg \<noteq> JUndefined
               then set_prop attr (defaultsTo cfg) props else props)
        in
          if (creating \<and> get_prop props1 attr = JUndefined) \<or> get_prop props1 attr = JNull then
            (if autoCreatedAt cfg then
               (if creating then set_prop attr NOW props1 else props1)
             else if autoUpdatedAt cfg then set_prop attr NOW props1
             else if \<not> allowNull cfg then
               (case zero_of_type (attr_type cfg) of
                  Some z \<Rightarrow> set_prop attr z props1
                | None \<Rightarrow> props1)
             else props1)
          else props1)"

text \<open>\<^verbatim>\<open>withDefaultValues(Model, props, { creating })\<close>. \<open>props\<close> is an object, or
  \<open>None\<close> for a missing one (\<^verbatim>\<open>if(props)\<close>).\<close>

definition withDefaultValues :: "model option \<Rightarrow> row option \<Rightarrow> bool \<Rightarrow> js_error + row option" where
  "withDefaultValues Model props creating =
     (case Model of
        None \<Rightarrow> Inl NoModelSupplied
      | Some M \<Rightarrow>
          (case props of
             None \<Rightarrow> Inr None
           | Some ps \<Rightarrow> Inr (Some (fold (default_entry creating) (attributes M) ps))))"

text \<open>\<^verbatim>\<open>buildSetQuery(Model, props, values)\<close>: reading \<^verbatim>\<open>.type\<close> of an attribute
  the model has nothing for is a \<^verbatim>\<open>TypeError\<close>.\<close>

definition set_entry ::
  "env \<Rightarrow> model \<Rightarrow> string \<times> jsval \<Rightarrow> jsval list \<times> string list \<Rightarrow> js_error + jsval list \<times> string list" where
  "set_entry E M kv st =
     (case (kv, st) of ((k, v), (values, sets)) \<Rightarrow>
        (case attribute_of M k of
           None \<Rightarrow> Inl TypeError
         | Some cfg \<Rightarrow>
             let values' = values @ [if attr_type cfg = Some ''json'' then JSON_stringify E v else v]
             in Inr (values', sets @ [fmt_ident E k @ '' = $'' @ string_of_nat (length values')])))"

definition buildSetQuery ::
  "env \<Rightarrow> model \<Rightarrow> row option \<Rightarrow> jsval list \<Rightarrow> js_error + string \<times> jsval list" where
  "buildSetQuery E M props values =
     (case props of
        None \<Rightarrow> Inl TypeError
      | Some ps \<Rightarrow>
          (case forEach (set_entry E M) ps (values, []) of
             Inl e \<Rightarrow> Inl e
           | Inr (values', sets) \<Rightarrow> Inr (join '', '' sets, values')))"

text \<open>\<^verbatim>\<open>buildValuesQuery(Model, cols, props, values)\<close>: reading a column of missing
  \<open>props\<close> is a \<^verbatim>\<open>TypeError\<close>.\<close>

definition buildValuesQuery ::
  "string list \<Rightarrow> row option \<Rightarrow> jsval list \<Rightarrow> js_error + string \<times> jsval list" where
  "buildValuesQuery cols props values =
     (case props of
        None \<Rightarrow> (if cols = [] then Inr (''()'', values) else Inl TypeError)
      | Some ps \<Rightarrow>
          (case fold (\<lambda>k (vs, q). (vs @ [get_prop ps k], q @ [''$'' @ string_of_nat (length vs + 1)]))
                  cols (values, [])
           of (values', q) \<Rightarrow> Inr (''('' @ join '', '' q @ '')'', values')))"

definition buildColumnNamesQuery :: "env \<Rightarrow> string list \<Rightarrow> string" where
  "buildColumnNamesQuery E cols = ''( '' @ join '', '' (map (fmt_ident E) cols) @ '' )''"

section \<open>ORDER BY and LIMIT\<close>

text \<open>\<^verbatim>\<open>trim()\<close> and \<^verbatim>\<open>split(/\s+/)\<close> over the ASCII white space.\<close>

definition is_ws :: "char \<Rightarrow> bool" where
  "is_ws c = (c \<in> set [CHR '' '', CHR 0x09, CHR 0x0A, CHR 0x0B, CHR 0x0C, CHR 0x0D])"

definition trim :: "string \<Rightarrow> string" where
  "trim s = rev (dropWhile is_ws (rev (dropWhile is_ws s)))"

function split_ws :: "string \<Rightarrow> string \<Rightarrow> string list" where
  "split_ws cur [] = [cur]"
| "split_ws cur (c # cs) =
     (if is_ws c then cur # split_ws [] (dropWhile is_ws cs) else split_ws (cur @ [c]) cs)"
  by pat_completeness auto
termination
  by (relation "measure (\<lambda>(cur, s). length s)") (auto simp: length_dropWhile_le less_Suc_eq_le)

definition buildOrderByQuery :: "env \<Rightarrow> jsval \<Rightarrow> js_error + string" where
  "buildOrderByQuery E orderBy =
     (if \<not> truthy orderBy then Inr []
      else
        (case orderBy of
           JStr s \<Rightarrow>
             (let parts = split_ws [] (trim s) in
              if length parts = 0 then Inr []
              else if 2 < length parts then
                Inl (InvalidArgument ''Unexpected extras in ORDER BY clause'')
              else
                (let dir = (if length parts = 2 then toUpperCase (parts ! 1) else []) in
                 if dir \<noteq> [] \<and> dir \<notin> set [''ASC'', ''DESC''] then
                   Inl (InvalidArgument ''Unexpected direction provided in ORDER BY clause'')
                 else Inr ('' ORDER BY '' @ fmt_ident E (parts ! 0) @ '' '' @ dir)))
         | _ \<Rightarrow> Inl TypeError))"

definition buildLimitQuery :: "env \<Rightarrow> jsval \<Rightarrow> string" where
  "buildLimitQuery E n = (if n = JUndefined then [] else '' LIMIT '' @ fmt_literal E n)"

definition getErrorCodesFor :: "string \<Rightarrow> string list" where
  "getErrorCodesFor sailsErrorName = (if sailsErrorName = ''E_UNIQUE'' then [''23505''] else [])"

section \<open>Casting rows\<close>

definition withTimestampsCast :: "env \<Rightarrow> row \<Rightarrow> row" where
  "withTimestampsCast E r =
     (let r1 = (if truthy (get_prop r ''created_at'')
                then set_prop ''created_at'' (toNumber E (get_prop r ''created_at'')) r else r)
      in if truthy (get_prop r1 ''updated_at'')
         then set_prop ''updated_at'' (toNumber E (get_prop r1 ''updated_at'')) r1 else r1)"

text \<open>The body of the loop over \<^verbatim>\<open>Object.entries(row)\<close>: destructuring the
  configuration of a column the model has nothing for is a \<^verbatim>\<open>TypeError\<close>.\<close>

definition cast_entry :: "model \<Rightarrow> string \<times> jsval \<Rightarrow> row \<Rightarrow> js_error + row" where
  "cast_entry M kv r =
     (case kv of (k, v) \<Rightarrow>
        if v = JUndefined \<or> v = JNull then
          (case attribute_of M k of
             None \<Rightarrow> Inl TypeError
           | Some cfg \<Rightarrow>
               if \<not> allowNull cfg then
                 (case zero_of_type (attr_type cfg) of
                    Some z \<Rightarrow> Inr (set_prop k z r)
                  | None \<Rightarrow> Inr r)
               else Inr r)
        else Inr r)"

text \<open>\<^verbatim>\<open>withSelectedValuesCast(Model, row)\<close>; \<open>None\<close> is a missing row
  (\<^verbatim>\<open>rows[0]\<close> of an empty result, a \<^verbatim>\<open>find\<close> without a match). \<open>cast_row\<close> is
  its work on a row that is there. The loop runs over the entries read before it starts
  and writes into the row.\<close>

definition cast_row :: "env \<Rightarrow> model \<Rightarrow> row \<Rightarrow> js_error + row" where
  "cast_row E M r0 = (let r1 = withTimestampsCast E r0 in forEach (cast_entry M) r1 r1)"

definition withSelectedValuesCast :: "env \<Rightarrow> model option \<Rightarrow> row option \<Rightarrow> js_error + row option" where
  "withSelectedValuesCast E Model r =
     (case Model of
        None \<Rightarrow> Inl NoModelSupplied
      | Some M \<Rightarrow>
          (case r of
             None \<Rightarrow> Inr None
           | Some r0 \<Rightarrow> (case cast_row E M r0 of Inl e \<Rightarrow> Inl e | Inr r2 \<Rightarrow> Inr (Some r2))))"

text \<open>\<^verbatim>\<open>getModelWithName(name)\<close>; \<open>None\<close> is an attribute without a \<^verbatim>\<open>model\<close>
  property, whose \<^verbatim>\<open>toLowerCase\<close> call fails at the first model of the loop.\<close>

definition getModelWithName :: "env \<Rightarrow> string option \<Rightarrow> js_error + model" where
  "getModelWithName E name =
     (case name of
        None \<Rightarrow> (if models E = [] then Inl (ModelNotFound ''undefined'') else Inl TypeError)
      | Some n \<Rightarrow>
          (case find (\<lambda>m. toLowerCase (globalId m) = toLowerCase n) (models E) of
             Some m \<Rightarrow> Inr m
           | None \<Rightarrow> Inl (ModelNotFound n)))"

section \<open>The deferred query builder\<close>

text \<open>
  A handler given to \<^verbatim>\<open>intercept\<close> is a function (which returns the value to reject
  with, or raises), \<open>HFun\<close> also when the function is a built-in one, or any other
  value, \<open>HVal\<close>. \<open>rejection\<close> is what \<^verbatim>\<open>reject\<close> is called with: an error, or a
  value a handler supplied.
\<close>

datatype rejection = RejErr js_error | RejVal jsval

datatype handler = HFun "js_error \<Rightarrow> js_error + rejection" | HVal jsval

text \<open>The options object of \<^verbatim>\<open>sendNativeQuery\<close>. \<open>opt_populate\<close> is the name given
  to \<^verbatim>\<open>populate\<close>; \<open>opt_client\<close> is the connection given to
  \<^verbatim>\<open>usingConnection\<close>; \<open>opt_intercepters\<close> maps native codes to handlers.\<close>

record opts =
  opt_Model :: "model option"
  opt_single :: bool
  opt_fetch :: bool
  opt_returnRows :: bool
  opt_returnSingleRow :: bool
  opt_limit :: jsval
  opt_orderBy :: jsval
  opt_populate :: "string option"
  opt_client :: "client option"
  opt_intercepters :: "(string \<times> handler) list"

definition no_opts :: opts where
  "no_opts = \<lparr> opt_Model = None, opt_single = False, opt_fetch = False, opt_returnRows = False,
               opt_returnSingleRow = False, opt_limit = JUndefined, opt_orderBy = JUndefined,
               opt_populate = None, opt_client = None, opt_intercepters = [] \<rparr>"

text \<open>The state the closures of \<^verbatim>\<open>sendNativeQuery\<close> share: the statement, its
  arguments (\<open>None\<close> when the caller gave none) and the options.\<close>

record builder =
  b_sql :: string
  b_args :: "jsval list option"
  b_opts :: opts

definition sendNativeQuery :: "string \<Rightarrow> jsval list option \<Rightarrow> opts \<Rightarrow> builder" where
  "sendNativeQuery sql args opts =
     \<lparr> b_sql = sql, b_args = args, b_opts = opts\<lparr> opt_intercepters := [] \<rparr> \<rparr>"

definition usingConnection :: "client \<Rightarrow> builder \<Rightarrow> builder" where
  "usingConnection c b = b\<lparr> b_opts := (b_opts b)\<lparr> opt_client := Some c \<rparr> \<rparr>"

definition fetch :: "builder \<Rightarrow> builder" where
  "fetch b = b\<lparr> b_opts := (b_opts b)\<lparr> opt_fetch := True \<rparr> \<rparr>"

definition intercept :: "string \<Rightarrow> handler \<Rightarrow> builder \<Rightarrow> builder" where
  "intercept errName h b =
     b\<lparr> b_opts := (b_opts b)\<lparr> opt_intercepters :=
          fold (\<lambda>code tbl. AList.update code h tbl) (getErrorCodesFor errName)
            (opt_intercepters (b_opts b)) \<rparr> \<rparr>"

definition limit :: "jsval \<Rightarrow> builder \<Rightarrow> js_error + builder" where
  "limit n b =
     (if \<not> isSafeInteger n then Inl (InvalidArgument ''Limit must be an integer.'')
      else Inr (b\<lparr> b_opts := (b_opts b)\<lparr> opt_limit := n \<rparr> \<rparr>))"

definition populate :: "string \<Rightarrow> builder \<Rightarrow> builder" where
  "populate prop b = b\<lparr> b_opts := (b_opts b)\<lparr> opt_populate := Some prop \<rparr> \<rparr>"

definition sort_by :: "jsval \<Rightarrow> builder \<Rightarrow> builder" where
  "sort_by criteria b = b\<lparr> b_opts := (b_opts b)\<lparr> opt_orderBy := criteria \<rparr> \<rparr>"

subsection \<open>Execution\<close>

text \<open>What the builder resolves with: a value (a record, \<^verbatim>\<open>undefined\<close>, an array of
  records) or the raw result of the storage. How a forced builder ends: \<^verbatim>\<open>resolve\<close>
  was called, \<^verbatim>\<open>reject\<close> was called, or \<^verbatim>\<open>then\<close> itself raised and called
  neither.\<close>

datatype resolved = Value jsval | Raw qresult

datatype outcome = Resolved resolved | Rejected rejection | Threw js_error

definition query ::
  "env \<Rightarrow> client \<Rightarrow> string \<Rightarrow> jsval list option \<Rightarrow> world \<Rightarrow> (js_error + qresult) \<times> world" where
  "query E c sql args w = (client_query E w c sql args, w @ [Sent c sql args])"

definition release :: "client \<Rightarrow> world \<Rightarrow> world" where
  "release c w = w @ [Released c]"

text \<open>\<^verbatim>\<open>client = opts.client || await pool.connect()\<close>.\<close>

definition acquire :: "env \<Rightarrow> opts \<Rightarrow> world \<Rightarrow> (js_error + client) \<times> world" where
  "acquire E opts w =
     (case opt_client opts of
        Some c \<Rightarrow> (Inr c, w)
      | None \<Rightarrow>
          (case pool_connect E w of
             Inl e \<Rightarrow> (Inl e, w)
           | Inr c \<Rightarrow> (Inr c, w @ [Leased c])))"

text \<open>The substitution of the placeholder: \<^verbatim>\<open>args.map(it => it === NOW ? now : it)\<close>.\<close>

definition resolve_now :: "int \<Rightarrow> jsval list \<Rightarrow> jsval list" where
  "resolve_now now args = map (\<lambda>it. if it = NOW then JNum (of_int now) else it) args"

text \<open>\<^verbatim>\<open>a === b\<close> between a value of a result row and a value of a row of another
  result: two objects or arrays of different results are never the same object,
  \<^verbatim>\<open>NaN\<close> equals nothing, and an inherited member is the same object wherever it is
  read.\<close>

definition strict_eq :: "jsval \<Rightarrow> jsval \<Rightarrow> bool" where
  "strict_eq a b =
     (case a of
        JUndefined \<Rightarrow> b = JUndefined
      | JNull \<Rightarrow> b = JNull
      | JBool x \<Rightarrow> b = JBool x
      | JNum x \<Rightarrow> b = JNum x
      | JInfinity x \<Rightarrow> b = JInfinity x
      | JStr x \<Rightarrow> b = JStr x
      | JInherited x \<Rightarrow> b = JInherited x
      | _ \<Rightarrow> False)"

fun find_index :: "('a \<Rightarrow> bool) \<Rightarrow> 'a list \<Rightarrow> nat option" where
  "find_index P [] = None"
| "find_index P (x # xs) = (if P x then Some 0 else map_option Suc (find_index P xs))"

definition first_row :: "row list \<Rightarrow> row option" where
  "first_row rs = (case rs of [] \<Rightarrow> None | r # _ \<Rightarrow> Some r)"

definition row_value :: "row option \<Rightarrow> jsval" where
  "row_value r = (case r of None \<Rightarrow> JUndefined | Some r' \<Rightarrow> JObj r')"

text \<open>The name to populate, when \<^verbatim>\<open>opts.populate\<close> is truthy.\<close>

definition populate_of :: "opts \<Rightarrow> string option" where
  "populate_of opts =
     (case opt_populate opts of None \<Rightarrow> None | Some p \<Rightarrow> if p = [] then None else Some p)"

text \<open>
  The \<^verbatim>\<open>if(opts.populate)\<close> block of the single-row branch. \<open>ret\<close> is the cast
  record, \<open>None\<close> when the statement matched nothing: reading its property then is a
  \<^verbatim>\<open>TypeError\<close>, raised while the arguments of the follow-up are built.
\<close>

definition populate_single ::
  "env \<Rightarrow> model \<Rightarrow> string \<Rightarrow> client \<Rightarrow> row option \<Rightarrow> world \<Rightarrow> (js_error + resolved) \<times> world" where
  "populate_single E M p c ret w =
     (case attribute_of M p of
        None \<Rightarrow> (Inl TypeError, w)
      | Some cfg \<Rightarrow>
          (case getModelWithName E (attr_model cfg) of
             Inl e \<Rightarrow> (Inl e, w)
           | Inr populateModel \<Rightarrow>
               (case ret of
                  None \<Rightarrow> (Inl TypeError, w)
                | Some r \<Rightarrow>
                    (case query E c (''SELECT * FROM '' @ fmt_ident E (tableName populateModel) @ '' WHERE id=$1'')
                            (Some [get_prop r p]) w
                     of (Inl e, w') \<Rightarrow> (Inl e, w')
                      | (Inr res, w') \<Rightarrow>
                          (case withSelectedValuesCast E (Some populateModel) (first_row (rows res)) of
                             Inl e \<Rightarrow> (Inl e, w')
                           | Inr related \<Rightarrow>
                               (Inr (Value (JObj (set_prop p (row_value related) r))), w'))))))"

text \<open>
  The body of \<^verbatim>\<open>ret.forEach\<close> in the multi-row branch. \<^verbatim>\<open>rows.find\<close> returns the
  row object itself and the cast writes into it, so two records with the same key share
  one related object: the state is the related rows as they stand, and for every record
  done the index of the row it points to (\<open>None\<close>: no row matched, the cast of
  \<^verbatim>\<open>undefined\<close> is \<^verbatim>\<open>undefined\<close>).
\<close>

definition merge_related ::
  "env \<Rightarrow> model \<Rightarrow> string \<Rightarrow> row \<Rightarrow> row list \<times> nat option list \<Rightarrow> js_error + row list \<times> nat option list" where
  "merge_related E populateModel p r st =
     (case st of (rws, refs) \<Rightarrow>
        (case find_index (\<lambda>rw. strict_eq (get_prop r p) (get_prop rw ''id'')) rws of
           None \<Rightarrow> Inr (rws, refs @ [None])
         | Some j \<Rightarrow>
             (case cast_row E populateModel (rws ! j) of
                Inl e \<Rightarrow> Inl e
              | Inr rw' \<Rightarrow> Inr (rws[j := rw'], refs @ [Some j]))))"

definition populated :: "string \<Rightarrow> row list \<Rightarrow> row \<Rightarrow> nat option \<Rightarrow> jsval" where
  "populated p rws r ref =
     JObj (set_prop p (case ref of None \<Rightarrow> JUndefined | Some j \<Rightarrow> JObj (rws ! j)) r)"

definition populate_multi ::
  "env \<Rightarrow> model \<Rightarrow> string \<Rightarrow> client \<Rightarrow> row list \<Rightarrow> world \<Rightarrow> (js_error + resolved) \<times> world" where
  "populate_multi E M p c ret w =
     (case attribute_of M p of
        None \<Rightarrow> (Inl TypeError, w)
      | Some cfg \<Rightarrow>
          (case getModelWithName E (attr_model cfg) of
             Inl e \<Rightarrow> (Inl e, w)
           | Inr populateModel \<Rightarrow>
               (let populateIds = map (\<lambda>r. get_prop r p) ret in
                case query E c (''SELECT * FROM '' @ fmt_ident E (tableName populateModel) @ '' WHERE id=ANY($1)'')
                       (Some [JArr populateIds]) w
                of (Inl e, w') \<Rightarrow> (Inl e, w')
                 | (Inr res, w') \<Rightarrow>
                     (case forEach (merge_related E populateModel p) ret (rows res, []) of
                        Inl e \<Rightarrow> (Inl e, w')
                      | Inr (rws, refs) \<Rightarrow>
                          (Inr (Value (JArr (map2 (populated p rws) ret refs))), w')))))"

text \<open>\<^verbatim>\<open>result.rows.map(row => withSelectedValuesCast(opts.Model, row))\<close>: the cast
  of a row that is there is a row.\<close>

definition cast_rows :: "env \<Rightarrow> model option \<Rightarrow> row list \<Rightarrow> js_error + row list" where
  "cast_rows E Model rs =
     mapE (\<lambda>r. case withSelectedValuesCast E Model (Some r) of
                 Inl e \<Rightarrow> Inl e
               | Inr None \<Rightarrow> Inr r
               | Inr (Some r') \<Rightarrow> Inr r') rs"

text \<open>The \<^verbatim>\<open>try\<close> block after the connection is there: the statement, then the shape
  of the result.\<close>

definition run_statement ::
  "env \<Rightarrow> opts \<Rightarrow> client \<Rightarrow> string \<Rightarrow> jsval list option \<Rightarrow> world \<Rightarrow> (js_error + resolved) \<times> world" where
  "run_statement E opts c sql args w =
     (case query E c sql args w of
        (Inl e, w') \<Rightarrow> (Inl e, w')
      | (Inr result, w') \<Rightarrow>
          if opt_returnSingleRow opts \<or> (opt_fetch opts \<and> opt_single opts) then
            (case withSelectedValuesCast E (opt_Model opts) (first_row (rows result)) of
               Inl e \<Rightarrow> (Inl e, w')
             | Inr ret \<Rightarrow>
                 (case populate_of opts of
                    None \<Rightarrow> (Inr (Value (row_value ret)), w')
                  | Some p \<Rightarrow>
                      (case opt_Model opts of
                         None \<Rightarrow> (Inl TypeError, w')
                       | Some M \<Rightarrow> populate_single E M p c ret w')))
          else if opt_returnRows opts \<or> opt_fetch opts then
            (case cast_rows E (opt_Model opts) (rows result) of
               Inl e \<Rightarrow> (Inl e, w')
             | Inr ret \<Rightarrow>
                 (case populate_of opts of
                    None \<Rightarrow> (Inr (Value (JArr (map JObj ret))), w')
                  | Some p \<Rightarrow>
                      (case opt_Model opts of
                         None \<Rightarrow> (Inl TypeError, w')
                       | Some M \<Rightarrow> populate_multi E M p c ret w')))
          else (Inr (Raw result), w'))"

text \<open>
  What the empty object \<^verbatim>\<open>{}\<close>, which the handler table starts as, gives under a name
  it inherits, and what calling it as \<^verbatim>\<open>intercepter(err)\<close> does. The call has no
  receiver: \<^verbatim>\<open>Object(err)\<close> is \<open>err\<close> itself, \<^verbatim>\<open>toString\<close> answers for
  \<^verbatim>\<open>undefined\<close>, and the other built-in functions fail converting their missing
  receiver to an object. Under \<^verbatim>\<open>__proto__\<close> the table gives \<^verbatim>\<open>Object.prototype\<close>,
  an object and no function.
\<close>

definition call_inherited :: "string \<Rightarrow> js_error \<Rightarrow> js_error + rejection" where
  "call_inherited k err =
     (if k = ''constructor'' then Inr (RejErr err)
      else if k = ''toString'' then Inr (RejVal (JStr ''[object Undefined]''))
      else Inl TypeError)"

definition inherited_handler :: "string \<Rightarrow> handler option" where
  "inherited_handler k =
     (if k = ''__proto__'' then Some (HVal (JInherited k))
      else if k \<in> set Object_prototype_names then Some (HFun (call_inherited k))
      else None)"

text \<open>\<^verbatim>\<open>opts.intercepters[err.code]\<close>: the handler registered under the code, else the
  inherited member of that name; an error without a code reads the property named
  \<^verbatim>\<open>undefined\<close>.\<close>

definition handler_at :: "opts \<Rightarrow> js_error \<Rightarrow> handler option" where
  "handler_at opts err =
     (let k = (case code_of err of None \<Rightarrow> ''undefined'' | Some c \<Rightarrow> c) in
      case map_of (opt_intercepters opts) k of
        Some h \<Rightarrow> Some h
      | None \<Rightarrow> inherited_handler k)"

text \<open>The \<^verbatim>\<open>catch\<close> block.\<close>

definition intercepted :: "opts \<Rightarrow> js_error \<Rightarrow> outcome" where
  "intercepted opts err =
     (case handler_at opts err of
        None \<Rightarrow> Rejected (RejErr err)
      | Some (HFun f) \<Rightarrow> (case f err of Inl e \<Rightarrow> Threw e | Inr v \<Rightarrow> Rejected v)
      | Some (HVal v) \<Rightarrow>
          if \<not> truthy v then Rejected (RejErr err)
          else (case v of JStr s \<Rightarrow> Rejected (RejVal v) | _ \<Rightarrow> Threw NotImplemented))"

text \<open>
  \<^verbatim>\<open>then(resolve, reject)\<close>, in the order of its text.
  \<^item> \<open>attempt\<close>: the fragments are appended (\<open>statement_text\<close>) and the
    placeholders resolved (\<open>statement_args\<close>) before the \<^verbatim>\<open>try\<close>, so an error of \<^verbatim>\<open>buildOrderByQuery\<close> leaves \<^verbatim>\<open>then\<close> before any
    connection is asked for (\<open>Inl\<close>). Otherwise the \<^verbatim>\<open>try\<close> block runs
    (\<open>try_block\<close>) and ends with a value or an error, the connection in the variable
    \<^verbatim>\<open>client\<close> (\<open>None\<close> when \<^verbatim>\<open>pool.connect()\<close> rejected) and the new world.
  \<^item> \<open>thenB\<close>: the \<^verbatim>\<open>catch\<close> block turns an error into the outcome; the
    \<^verbatim>\<open>finally\<close> block releases the connection when there is one and none was given.
\<close>

definition try_block ::
  "env \<Rightarrow> opts \<Rightarrow> string \<Rightarrow> jsval list option \<Rightarrow> world
     \<Rightarrow> (js_error + resolved) \<times> client option \<times> world" where
  "try_block E opts sql args w =
     (case acquire E opts w of
        (Inl e, w1) \<Rightarrow> (Inl e, None, w1)
      | (Inr c, w1) \<Rightarrow>
          (case run_statement E opts c sql args w1 of (r, w2) \<Rightarrow> (r, Some c, w2)))"

definition statement_text :: "env \<Rightarrow> builder \<Rightarrow> string \<Rightarrow> string" where
  "statement_text E b orderByQuery =
     (if opt_fetch (b_opts b) then b_sql b @ '' RETURNING *'' else b_sql b) @
     orderByQuery @ buildLimitQuery E (opt_limit (b_opts b))"

definition statement_args :: "env \<Rightarrow> builder \<Rightarrow> jsval list option" where
  "statement_args E b = map_option (resolve_now (Date_now E)) (b_args b)"

definition attempt ::
  "env \<Rightarrow> builder \<Rightarrow> world \<Rightarrow> js_error + (js_error + resolved) \<times> client option \<times> world" where
  "attempt E b w =
     (case buildOrderByQuery E (opt_orderBy (b_opts b)) of
        Inl e \<Rightarrow> Inl e
      | Inr orderByQuery \<Rightarrow>
          Inr (try_block E (b_opts b) (statement_text E b orderByQuery) (statement_args E b) w))"

definition thenB :: "env \<Rightarrow> builder \<Rightarrow> world \<Rightarrow> outcome \<times> world" where
  "thenB E b w =
     (case attempt E b w of
        Inl e \<Rightarrow> (Threw e, w)
      | Inr (r, cl, w') \<Rightarrow>
          ((case r of Inl err \<Rightarrow> intercepted (b_opts b) err | Inr v \<Rightarrow> Resolved v),
           (case cl of
              None \<Rightarrow> w'
            | Some c \<Rightarrow> if opt_client (b_opts b) = None then release c w' else w')))"

section \<open>Model operations\<close>

text \<open>
  What a model operation hands back, and what the methods called on it hand back: a
  builder; a plain value (the string \<^verbatim>\<open>'TODO'\<close>, \<^verbatim>\<open>undefined\<close>, an array); or one
  of the two literal objects of \<^verbatim>\<open>createEach\<close> on an empty list, \<open>StubTop\<close> with
  the properties \<^verbatim>\<open>fetch\<close> and \<^verbatim>\<open>usingConnection\<close> and \<open>StubFetched\<close>, which
  \<^verbatim>\<open>StubTop\<close>'s \<^verbatim>\<open>fetch\<close> returns, with \<^verbatim>\<open>usingConnection\<close> and \<^verbatim>\<open>then\<close>.
\<close>

datatype stub = StubTop | StubFetched

datatype returned = Builder builder | Plain jsval | Stub stub

definition nl :: string where
  "nl = [CHR 0x0A]"

definition Model_create :: "env \<Rightarrow> model \<Rightarrow> row option \<Rightarrow> js_error + returned" where
  "Model_create E M props0 =
     (case withDefaultValues (Some M) props0 True of
        Inl e \<Rightarrow> Inl e
      | Inr props \<Rightarrow>
          (case props of
             None \<Rightarrow> Inl TypeError
           | Some ps \<Rightarrow>
               (let cols = map fst ps in
                case buildValuesQuery cols props [] of
                  Inl e \<Rightarrow> Inl e
                | Inr (valuesQuery, values) \<Rightarrow>
                    Inr (Builder (sendNativeQuery
                      (nl @ ''        INSERT INTO '' @ fmt_ident E (tableName M) @ nl @
                       ''            '' @ buildColumnNamesQuery E cols @ nl @
                       ''            VALUES '' @ valuesQuery @ nl @ ''      '')
                      (Some values)
                      (no_opts\<lparr> opt_Model := Some M, opt_single := True \<rparr>))))))"

text \<open>The loop \<^verbatim>\<open>propses.map(props => buildValuesQuery(Model, cols, props, values))\<close>,
  which fills the one array \<open>values\<close>.\<close>

fun values_tuples ::
  "string list \<Rightarrow> row option list \<Rightarrow> jsval list \<Rightarrow> js_error + string list \<times> jsval list" where
  "values_tuples cols [] values = Inr ([], values)"
| "values_tuples cols (props # rest) values =
     (case buildValuesQuery cols props values of
        Inl e \<Rightarrow> Inl e
      | Inr (q, values') \<Rightarrow>
          (case values_tuples cols rest values' of
             Inl e \<Rightarrow> Inl e
           | Inr (qs, values'') \<Rightarrow> Inr (q # qs, values'')))"

definition Model_createEach :: "env \<Rightarrow> model \<Rightarrow> row option list \<Rightarrow> js_error + returned" where
  "Model_createEach E M propses0 =
     (case mapE (\<lambda>props. withDefaultValues (Some M) props True) propses0 of
        Inl e \<Rightarrow> Inl e
      | Inr propses \<Rightarrow>
          (case propses of
             [] \<Rightarrow> Inr (Stub StubTop)
           | None # _ \<Rightarrow> Inl TypeError
           | Some ps # _ \<Rightarrow>
               (let cols = map fst ps in
                case values_tuples cols propses [] of
                  Inl e \<Rightarrow> Inl e
                | Inr (tuples, values) \<Rightarrow>
                    Inr (Builder (sendNativeQuery
                      (nl @ ''        INSERT INTO '' @ fmt_ident E (tableName M) @ nl @
                       ''            '' @ buildColumnNamesQuery E cols @ nl @
                       ''            VALUES '' @ join ('','' @ nl @ replicate 19 CHR '' '') tuples @ nl @
                       ''      '')
                      (Some values)
                      (no_opts\<lparr> opt_Model := Some M \<rparr>))))))"

text \<open>\<^verbatim>\<open>Model.destroy = () => {}\<close> and \<^verbatim>\<open>Model.destroyOne = () => {}\<close>: functions
  with an empty body, which return \<^verbatim>\<open>undefined\<close> whatever they are called with.\<close>

definition Model_destroy :: "env \<Rightarrow> model \<Rightarrow> jsval \<Rightarrow> js_error + returned" where
  "Model_destroy E M criteria = Inr (Plain JUndefined)"

definition Model_destroyOne :: "env \<Rightarrow> model \<Rightarrow> jsval \<Rightarrow> js_error + returned" where
  "Model_destroyOne E M criteria = Inr (Plain JUndefined)"

text \<open>\<^verbatim>\<open>getFindCriteriaFrom(options)\<close> returns \<^verbatim>\<open>{ select, criteria, orderBy, limit }\<close>.
  Only an object has a key named \<^verbatim>\<open>select\<close>; a truthy \<^verbatim>\<open>options.select\<close> that is
  no array has no \<^verbatim>\<open>map\<close> to call.\<close>

definition getFindCriteriaFrom :: "env \<Rightarrow> jsval \<Rightarrow> js_error + string \<times> jsval \<times> jsval \<times> jsval" where
  "getFindCriteriaFrom E options =
     (case Object_entries options of
        Inl e \<Rightarrow> Inl e
      | Inr kvs \<Rightarrow>
          if ''select'' \<in> set (map fst kvs) then
            (let pick = (\<lambda>k. if truthy (get_prop kvs k) then get_prop kvs k else JUndefined) in
             if truthy (get_prop kvs ''select'') then
               (case get_prop kvs ''select'' of
                  JArr vs \<Rightarrow>
                    (case mapE (esc_col E) vs of
                       Inl e \<Rightarrow> Inl e
                     | Inr cs \<Rightarrow> Inr (join '', '' cs, pick ''where'', pick ''sort'', pick ''limit''))
                | _ \<Rightarrow> Inl TypeError)
             else Inr (''*'', pick ''where'', pick ''sort'', pick ''limit''))
          else Inr (''*'', options, JUndefined, JUndefined))"

text \<open>\<^verbatim>\<open>Model.find = (options={}) => ...\<close>: the default takes the place of a missing
  argument (\<^verbatim>\<open>undefined\<close>).\<close>

definition Model_find :: "env \<Rightarrow> model \<Rightarrow> jsval \<Rightarrow> js_error + returned" where
  "Model_find E M options0 =
     (let options = (if options0 = JUndefined then JObj [] else options0) in
      case getFindCriteriaFrom E options of
        Inl e \<Rightarrow> Inl e
      | Inr (select, criteria, orderBy, lmt) \<Rightarrow>
          (case buildWhereQuery E criteria [] of
             Inl e \<Rightarrow> Inl e
           | Inr (whereQuery, args) \<Rightarrow>
               Inr (Builder (sendNativeQuery
                 (nl @ ''        SELECT '' @ select @ nl @
                  ''          FROM '' @ fmt_ident E (tableName M) @ nl @
                  ''          '' @ whereQuery @ nl @ ''      '')
                 (Some args)
                 (no_opts\<lparr> opt_Model := Some M, opt_returnRows := True,
                           opt_limit := lmt, opt_orderBy := orderBy \<rparr>)))))"

definition Model_findOne :: "env \<Rightarrow> model \<Rightarrow> jsval \<Rightarrow> js_error + returned" where
  "Model_findOne E M options0 =
     (let options = (if options0 = JUndefined then JObj [] else options0) in
      case getFindCriteriaFrom E options of
        Inl e \<Rightarrow> Inl e
      | Inr (select, criteria, orderBy, lmt) \<Rightarrow>
          (case buildWhereQuery E criteria [] of
             Inl e \<Rightarrow> Inl e
           | Inr (whereQuery, args) \<Rightarrow>
               Inr (Builder (sendNativeQuery
                 (nl @ ''        SELECT '' @ select @ nl @
                  ''          FROM '' @ fmt_ident E (tableName M) @ nl @
                  ''          WHERE id = ('' @ nl @
                  ''            SELECT id'' @ nl @
                  ''              FROM '' @ fmt_ident E (tableName M) @ nl @
                  ''              '' @ whereQuery @ nl @
                  ''          )'' @ nl @ ''      '')
                 (Some args)
                 (no_opts\<lparr> opt_Model := Some M, opt_returnSingleRow := True,
                           opt_limit := lmt, opt_orderBy := orderBy \<rparr>)))))"

text \<open>\<^verbatim>\<open>Model.update(criteria).set(props)\<close> and \<^verbatim>\<open>Model.updateOne(criteria).set(props)\<close>.
  The empty string is the only falsy string: \<^verbatim>\<open>if(!setQuery) return 'TODO'\<close>.\<close>

definition Model_update_set :: "env \<Rightarrow> model \<Rightarrow> jsval \<Rightarrow> row option \<Rightarrow> js_error + returned" where
  "Model_update_set E M criteria props0 =
     (case withDefaultValues (Some M) props0 False of
        Inl e \<Rightarrow> Inl e
      | Inr props \<Rightarrow>
          (case buildSetQuery E M props [] of
             Inl e \<Rightarrow> Inl e
           | Inr (setQuery, args) \<Rightarrow>
               if setQuery = [] then Inr (Plain (JStr ''TODO''))
               else
                 (case buildWhereQuery E criteria args of
                    Inl e \<Rightarrow> Inl e
                  | Inr (whereQuery, args') \<Rightarrow>
                      Inr (Builder (sendNativeQuery
                        (nl @ ''            UPDATE '' @ fmt_ident E (tableName M) @ nl @
                         ''              SET '' @ setQuery @ nl @
                         ''              '' @ whereQuery @ nl @ ''          '')
                        (Some args')
                        (no_opts\<lparr> opt_Model := Some M \<rparr>))))))"

definition Model_updateOne_set :: "env \<Rightarrow> model \<Rightarrow> jsval \<Rightarrow> row option \<Rightarrow> js_error + returned" where
  "Model_updateOne_set E M criteria props0 =
     (case withDefaultValues (Some M) props0 False of
        Inl e \<Rightarrow> Inl e
      | Inr props \<Rightarrow>
          (case buildSetQuery E M props [] of
             Inl e \<Rightarrow> Inl e
           | Inr (setQuery, args) \<Rightarrow>
               if setQuery = [] then Inr (Plain (JStr ''TODO''))
               else
                 (case buildWhereQuery E criteria args of
                    Inl e \<Rightarrow> Inl e
                  | Inr (whereQuery, args') \<Rightarrow>
                      Inr (Builder (sendNativeQuery
                        (nl @ ''            UPDATE '' @ fmt_ident E (tableName M) @ nl @
                         ''              SET '' @ setQuery @ nl @
                         ''              WHERE id = ('' @ nl @
                         ''                SELECT id'' @ nl @
                         ''                  FROM '' @ fmt_ident E (tableName M) @ nl @
                         ''                  '' @ whereQuery @ nl @
                         ''              )'' @ nl @ ''          '')
                        (Some args')
                        (no_opts\<lparr> opt_Model := Some M, opt_single := True, opt_fetch := True \<rparr>))))))"

subsection \<open>Calling and awaiting what an operation returned\<close>

text \<open>
  \<^verbatim>\<open>x.fetch()\<close> and \<^verbatim>\<open>x.usingConnection(c)\<close> on a returned value. A string and
  \<^verbatim>\<open>undefined\<close> have neither method, \<open>StubFetched\<close> has no \<^verbatim>\<open>fetch\<close>: the call is a
  \<^verbatim>\<open>TypeError\<close>. The stubs' own methods return what the literal says:
  \<^verbatim>\<open>usingConnection: () => {}\<close> returns \<^verbatim>\<open>undefined\<close>, \<^verbatim>\<open>usingConnection: () => []\<close>
  an empty array.
\<close>

definition call_fetch :: "returned \<Rightarrow> js_error + returned" where
  "call_fetch x =
     (case x of
        Builder b \<Rightarrow> Inr (Builder (fetch b))
      | Stub StubTop \<Rightarrow> Inr (Stub StubFetched)
      | _ \<Rightarrow> Inl TypeError)"

definition call_usingConnection :: "client \<Rightarrow> returned \<Rightarrow> js_error + returned" where
  "call_usingConnection c x =
     (case x of
        Builder b \<Rightarrow> Inr (Builder (usingConnection c b))
      | Stub StubTop \<Rightarrow> Inr (Plain JUndefined)
      | Stub StubFetched \<Rightarrow> Inr (Plain (JArr []))
      | Plain v \<Rightarrow> Inl TypeError)"

text \<open>\<^verbatim>\<open>typeof x.then === 'function'\<close>, which decides what \<^verbatim>\<open>await x\<close> does.\<close>

definition has_then :: "returned \<Rightarrow> bool" where
  "has_then x = (case x of Builder b \<Rightarrow> True | Stub StubFetched \<Rightarrow> True | _ \<Rightarrow> False)"

text \<open>
  What \<^verbatim>\<open>await x\<close> gives: the value a thenable resolves with, and \<open>x\<close> itself when
  \<open>x\<close> has no \<^verbatim>\<open>then\<close>. \<open>AwaitedItself x\<close> is that second case for a stub object, which
  is no data value.
\<close>

datatype awaited = Settled outcome | AwaitedItself stub

definition await :: "env \<Rightarrow> returned \<Rightarrow> world \<Rightarrow> awaited \<times> world" where
  "await E x w =
     (case x of
        Builder b \<Rightarrow> (case thenB E b w of (out, w') \<Rightarrow> (Settled out, w'))
      | Plain v \<Rightarrow> (Settled (Resolved (Value v)), w)
      | Stub StubFetched \<Rightarrow> (Settled (Resolved (Value (JArr []))), w)
      | Stub StubTop \<Rightarrow> (AwaitedItself StubTop, w))"

section \<open>A small registry for the worked examples\<close>

text \<open>The models of the repository's tests: \<^verbatim>\<open>Simple\<close> as the caller declares it, and a
  set of global default attributes, one of which (\<^verbatim>\<open>name\<close>) the model declares too.\<close>

definition cfg0 :: attr_cfg where
  "cfg0 = \<lparr> attr_type = None, allowNull = False, defaultsTo = JUndefined,
            autoCreatedAt = False, autoUpdatedAt = False, attr_model = None \<rparr>"

definition ex_defaults :: "(string \<times> attr_cfg) list" where
  "ex_defaults = [(''created_timestamp'', cfg0\<lparr> attr_type := Some ''number'', autoCreatedAt := True \<rparr>),
                  (''name'', cfg0\<lparr> attr_type := Some ''json'' \<rparr>)]"

definition ex_Simple :: model where
  "ex_Simple = \<lparr> globalId = [], tableName = [],
      attributes = [(''id'', cfg0\<lparr> attr_type := Some ''number'' \<rparr>),
                    (''name'', cfg0\<lparr> attr_type := Some ''string'' \<rparr>)] \<rparr>"

text \<open>An environment whose identifier quoting leaves a name as it is, whose pool hands
  out a fresh connection number and whose storage answers every statement with no rows;
  and a criteria mapping with one entry of every kind.\<close>

definition ex_env :: env where
  "ex_env = \<lparr> fmt_ident = (\<lambda>s. s), fmt_ident_other = (\<lambda>v. Inl TypeError),
              fmt_literal = (\<lambda>v. ''0''), toNumber = (\<lambda>v. v), JSON_stringify = (\<lambda>v. v),
              Date_now = 1700000000000, models = [],
              pool_connect = (\<lambda>w. Inr (length w)),
              client_query = (\<lambda>w c sql args. Inr \<lparr> rows = [], rowCount = 0 \<rparr>) \<rparr>"

definition ex_criteria :: "(string \<times> jsval) list" where
  "ex_criteria =
     [(''a'', JNull),
      (''b'', JArr [JNum 1, JNum 2]),
      (''c'', JObj [(''!='', JNull)]),
      (''d'', JObj [(''!='', JArr [JNum 3])]),
      (''e'', JObj [(''>='', JNum 4)]),
      (''f'', JStr ''x'')]"

text \<open>The model \<^verbatim>\<open>Audited\<close> of the tests, with one attribute stamped at creation and
  one at every update; the builder \<^verbatim>\<open>Audited.createEach\<close> returns for two rows; and
  the environment one millisecond later.\<close>

definition ex_Audited :: model where
  "ex_Audited = initialiseModel [] ''Audited'' \<lparr> globalId = [], tableName = [],
      attributes = [(''name'', cfg0\<lparr> attr_type := Some ''string'' \<rparr>),
                    (''created_at'', cfg0\<lparr> attr_type := Some ''number'', autoCreatedAt := True \<rparr>),
                    (''updated_at'', cfg0\<lparr> attr_type := Some ''number'', autoUpdatedAt := True \<rparr>)] \<rparr>"

definition ex_rows :: "row option list" where
  "ex_rows = [Some [(''name'', JStr ''alice'')], Some [(''name'', JStr ''bob'')]]"

definition ex_insert :: builder where
  "ex_insert =
     (case Model_createEach ex_env ex_Audited ex_rows of
        Inr (Builder b) \<Rightarrow> b
      | _ \<Rightarrow> sendNativeQuery [] None no_opts)"

definition ex_env_later :: env where
  "ex_env_later = ex_env\<lparr> Date_now := 1700000000001 \<rparr>"

text \<open>A storage that answers every statement with a uniqueness violation, and a statement
  to send to it.\<close>

definition ex_env_unique :: env where
  "ex_env_unique =
     ex_env\<lparr> client_query := (\<lambda>w c sql args. Inl (StorageEngineError ''23505'' ''duplicate key'')) \<rparr>"

definition ex_statement :: builder where
  "ex_statement = sendNativeQuery ''INSERT INTO simple ( name ) VALUES ($1)'' (Some [JStr ''alice'']) no_opts"

text \<open>
  The two related models of the tests. \<^verbatim>\<open>my_simple\<close> of \<^verbatim>\<open>WithRelationship\<close> names a
  record of \<^verbatim>\<open>Simple\<close>; two owners share the first one and the third owner has none.
  The storage answers a lookup by one key or by an array of keys from the rows of
  \<^verbatim>\<open>Simple\<close>, and every other statement from the owners (those with the given id when
  one argument is bound). The two builders are \<^verbatim>\<open>findOne(3).populate('my_simple')\<close> and
  \<^verbatim>\<open>find().populate('my_simple')\<close> on \<^verbatim>\<open>WithRelationship\<close>.
\<close>

definition ex_SimpleM :: model where
  "ex_SimpleM = initialiseModel [] ''Simple'' ex_Simple"

definition ex_WithRelationship :: model where
  "ex_WithRelationship = initialiseModel [] ''WithRelationship'' \<lparr> globalId = [], tableName = [],
      attributes = [(''id'', cfg0\<lparr> attr_type := Some ''number'' \<rparr>),
                    (''name'', cfg0\<lparr> attr_type := Some ''string'' \<rparr>),
                    (''my_simple'', cfg0\<lparr> attr_model := Some ''Simple'' \<rparr>)] \<rparr>"

definition ex_simple_rows :: "row list" where
  "ex_simple_rows = [[(''id'', JNum 1), (''name'', JStr ''alice'')],
                     [(''id'', JNum 2), (''name'', JStr ''bob'')]]"

definition ex_owner_rows :: "row list" where
  "ex_owner_rows = [[(''id'', JNum 1), (''name'', JStr ''alice_owner''), (''my_simple'', JNum 1)],
                    [(''id'', JNum 2), (''name'', JStr ''alice_too''), (''my_simple'', JNum 1)],
                    [(''id'', JNum 3), (''name'', JStr ''owns_nothing''), (''my_simple'', JNull)]]"

definition ex_storage :: "world \<Rightarrow> client \<Rightarrow> string \<Rightarrow> jsval list option \<Rightarrow> js_error + qresult" where
  "ex_storage w c sql args =
     (case args of
        Some [JArr ids] \<Rightarrow>
          Inr \<lparr> rows = filter (\<lambda>r. get_prop r ''id'' \<in> set ids) ex_simple_rows, rowCount = 0 \<rparr>
      | Some [v] \<Rightarrow>
          if sql = ''SELECT * FROM simple WHERE id=$1''
          then Inr \<lparr> rows = filter (\<lambda>r. get_prop r ''id'' = v) ex_simple_rows, rowCount = 0 \<rparr>
          else Inr \<lparr> rows = filter (\<lambda>r. get_prop r ''id'' = v) ex_owner_rows, rowCount = 0 \<rparr>
      | _ \<Rightarrow> Inr \<lparr> rows = ex_owner_rows, rowCount = 3 \<rparr>)"

definition ex_env_rel :: env where
  "ex_env_rel = ex_env\<lparr> models := [ex_SimpleM, ex_WithRelationship], client_query := ex_storage \<rparr>"

definition ex_findOne_populate :: builder where
  "ex_findOne_populate =
     (case Model_findOne ex_env_rel ex_WithRelationship (JNum 3) of
        Inr (Builder b) \<Rightarrow> populate ''my_simple'' b
      | _ \<Rightarrow> sendNativeQuery [] None no_opts)"

definition ex_find_populate :: builder where
  "ex_find_populate =
     (case Model_find ex_env_rel ex_WithRelationship JUndefined of
        Inr (Builder b) \<Rightarrow> populate ''my_simple'' b
      | _ \<Rightarrow> sendNativeQuery [] None no_opts)"

text \<open>A pool that refuses every request for a connection; a storage that fails every
  statement with a given native code; and a model like \<^verbatim>\<open>WithRelationship\<close> whose relation
  attribute also declares the type \<^verbatim>\<open>number\<close>, with the builder
  \<^verbatim>\<open>findOne(3).populate('my_simple')\<close> on it.\<close>

definition ex_env_refusing :: env where
  "ex_env_refusing = ex_env\<lparr> pool_connect := (\<lambda>w. Inl (StorageEngineError ''53300'' ''too many connections'')) \<rparr>"

definition ex_env_named :: "string \<Rightarrow> env" where
  "ex_env_named c = ex_env\<lparr> client_query := (\<lambda>w cl sql args. Inl (StorageEngineError c ''failed'')) \<rparr>"

definition ex_TypedRelationship :: model where
  "ex_TypedRelationship = initialiseModel [] ''TypedRelationship'' \<lparr> globalId = [], tableName = [],
      attributes = [(''id'', cfg0\<lparr> attr_type := Some ''number'' \<rparr>),
                    (''name'', cfg0\<lparr> attr_type := Some ''string'' \<rparr>),
                    (''my_simple'', cfg0\<lparr> attr_type := Some ''number'', attr_model := Some ''Simple'' \<rparr>)] \<rparr>"

definition ex_findOne_typed :: builder where
  "ex_findOne_typed =
     (case Model_findOne ex_env_rel ex_TypedRelationship (JNum 3) of
        Inr (Builder b) \<Rightarrow> populate ''my_simple'' b
      | _ \<Rightarrow> sendNativeQuery [] None no_opts)"

section \<open>Global default attributes\<close>

lemma map_of_spread:
  "map_of (spread a b) = map_of a ++ map_of (rev b)"
  unfolding spread_def
proof (induction b arbitrary: a)
  case Nil
  show ?case by simp
next
  case (Cons p b)
  obtain k v where p: "p = (k, v)" by (cases p)
  have "map_of (fold (\<lambda>(k, v). AList.update k v) b (AList.update k v a))
        = map_of (AList.update k v a) ++ map_of (rev b)"
    by (rule Cons.IH)
  also have "\<dots> = (map_of a ++ [k \<mapsto> v]) ++ map_of (rev b)"
    by (simp add: update_conv')
  also have "\<dots> = map_of a ++ map_of (rev ((k, v) # b))"
    by simp
  finally show ?case using p by simp
qed

lemma map_of_rev_distinct:
  "distinct (map fst xs) \<Longrightarrow> map_of (rev xs) = map_of xs"
proof (induction xs)
  case Nil
  show ?case by simp
next
  case (Cons p xs)
  obtain k v where p: "p = (k, v)" by (cases p)
  have k: "map_of xs k = None" using Cons.prems p by (simp add: map_of_eq_None_iff)
  have "map_of (rev (p # xs)) = [k \<mapsto> v] ++ map_of xs"
    using Cons p by simp
  also have "\<dots> = map_of (p # xs)"
    using k p by (auto simp: map_add_def fun_eq_iff split: option.splits)
  finally show ?case .
qed

lemma map_of_plimsoll_models:
  "map_of (plimsoll_models ms d) n = map_option (initialiseModel d n) (map_of ms n)"
  unfolding plimsoll_models_def by (induction ms) auto

text \<open>
  Claim C9. A model initialised in a registry with global default attributes has, as its
  attributes, the defaults merged with its own: under every name the model's own
  attribute when it declares one (the global one is replaced as a whole), the global
  default otherwise. The model's own attributes are those of an object, so their names
  are distinct.
\<close>

theorem global_defaults_merged:
  assumes "map_of ms n = Some Model"
    and "distinct (map fst (attributes Model))"
  shows "\<exists>M'. map_of (plimsoll_models ms d) n = Some M' \<and>
           (\<forall>k. map_of (attributes M') k =
                  (case map_of (attributes Model) k of
                     Some cfg \<Rightarrow> Some cfg
                   | None \<Rightarrow> map_of d k))"
proof -
  have "map_of (rev (attributes Model)) = map_of (attributes Model)"
    using assms(2) by (rule map_of_rev_distinct)
  then have "map_of (attributes (initialiseModel d n Model)) = map_of d ++ map_of (attributes Model)"
    by (simp add: initialiseModel_def map_of_spread)
  then show ?thesis
    using assms(1) by (simp add: map_of_plimsoll_models map_add_def)
qed

text \<open>
  Claim C9, at the registry of \<^verbatim>\<open>Simple\<close> with two global defaults: \<^verbatim>\<open>name\<close> is the
  model's own attribute, \<^verbatim>\<open>created_timestamp\<close> comes from the defaults.
\<close>

theorem global_defaults_merged_witness:
  "map_of [(''Simple'', ex_Simple)] ''Simple'' = Some ex_Simple \<and>
   distinct (map fst (attributes ex_Simple)) \<and>
   (\<exists>M'. map_of (plimsoll_models [(''Simple'', ex_Simple)] ex_defaults) ''Simple'' = Some M' \<and>
      map_of (attributes M') ''name'' = Some (cfg0\<lparr> attr_type := Some ''string'' \<rparr>) \<and>
      map_of (attributes M') ''created_timestamp'' = Some (cfg0\<lparr> attr_type := Some ''number'', autoCreatedAt := True \<rparr>))"
proof -
  have h1: "map_of [(''Simple'', ex_Simple)] ''Simple'' = Some ex_Simple" by simp
  have h2: "distinct (map fst (attributes ex_Simple))" by (simp add: ex_Simple_def)
  from global_defaults_merged [OF h1 h2, of ex_defaults]
  obtain M' where m: "map_of (plimsoll_models [(''Simple'', ex_Simple)] ex_defaults) ''Simple'' = Some M'"
    and a: "\<And>k. map_of (attributes M') k =
                  (case map_of (attributes ex_Simple) k of
                     Some cfg \<Rightarrow> Some cfg
                   | None \<Rightarrow> map_of ex_defaults k)" by blast
  have "map_of (attributes M') ''name'' = Some (cfg0\<lparr> attr_type := Some ''string'' \<rparr>)"
    by (simp add: a ex_Simple_def ex_defaults_def)
  moreover have "map_of (attributes M') ''created_timestamp'' = Some (cfg0\<lparr> attr_type := Some ''number'', autoCreatedAt := True \<rparr>)"
    by (simp add: a ex_Simple_def ex_defaults_def)
  ultimately show ?thesis using h1 h2 m by blast
qed

section \<open>The limit modifier\<close>

lemma isSafeInteger_iff:
  "isSafeInteger n \<longleftrightarrow> (\<exists>i::int. n = JNum (of_int i) \<and> \<bar>i\<bar> \<le> 9007199254740991)"
proof
  assume "isSafeInteger n"
  then obtain q where q: "n = JNum q" "of_int \<lfloor>q\<rfloor> = q" "\<bar>q\<bar> \<le> 2 ^ 53 - 1"
    by (auto simp: isSafeInteger_def split: jsval.splits)
  define i where "i = \<lfloor>q\<rfloor>"
  have qi: "q = of_int i" unfolding i_def using q(2) by (rule sym)
  have "\<bar>of_int i :: rat\<bar> \<le> of_int 9007199254740991" using q(3) unfolding qi by simp
  then have "\<bar>i\<bar> \<le> 9007199254740991"
    unfolding of_int_abs [symmetric] of_int_le_iff .
  with q(1) qi show "\<exists>i::int. n = JNum (of_int i) \<and> \<bar>i\<bar> \<le> 9007199254740991" by blast
next
  assume "\<exists>i::int. n = JNum (of_int i) \<and> \<bar>i\<bar> \<le> 9007199254740991"
  then obtain i :: int where i: "n = JNum (of_int i)" "\<bar>i\<bar> \<le> 9007199254740991" by blast
  have "\<bar>of_int i :: rat\<bar> \<le> of_int 9007199254740991"
    unfolding of_int_abs [symmetric] of_int_le_iff using i by simp
  then show "isSafeInteger n" using i by (simp add: isSafeInteger_def)
qed

text \<open>
  Claim C5, as the code has it. \<^verbatim>\<open>limit(n)\<close> takes every safe integer, a number with
  an integral value of magnitude at most \<open>2^53 - 1\<close>, negative ones too, and stores it;
  every other argument fails with \<open>InvalidArgument\<close>.
\<close>

theorem limit_safe_integer:
  "limit n b =
     (if \<exists>i::int. n = JNum (of_int i) \<and> \<bar>i\<bar> \<le> 9007199254740991
      then Inr (b\<lparr> b_opts := (b_opts b)\<lparr> opt_limit := n \<rparr> \<rparr>)
      else Inl (InvalidArgument ''Limit must be an integer.''))"
  unfolding limit_def isSafeInteger_iff by simp

text \<open>
  Claim C5 as stated asks for a non-negative safe integer and has a negative integer
  rejected. \<^verbatim>\<open>limit(-1)\<close> is accepted: the builder comes back with the limit \<open>-1\<close>.
\<close>

theorem limit_negative_accepted:
  "limit (JNum (- 1)) (sendNativeQuery ''SELECT 1'' None no_opts) =
     Inr ((sendNativeQuery ''SELECT 1'' None no_opts)
            \<lparr> b_opts := (b_opts (sendNativeQuery ''SELECT 1'' None no_opts))\<lparr> opt_limit := JNum (- 1) \<rparr> \<rparr>)"
  by (simp add: limit_def isSafeInteger_def)

section \<open>Updates with an empty property map\<close>

lemma default_entry_update_empty: "default_entry False ac [] = []"
  by (cases ac) (simp add: default_entry_def get_prop_def)

lemma withDefaultValues_update_empty:
  "withDefaultValues (Some M) (Some []) False = Inr (Some [])"
proof -
  have "fold (default_entry False) attrs [] = []" for attrs
    by (induction attrs) (simp_all add: default_entry_update_empty)
  then show ?thesis by (simp add: withDefaultValues_def)
qed

lemma buildSetQuery_empty: "buildSetQuery E M (Some []) [] = Inr ([], [])"
  by (simp add: buildSetQuery_def)

text \<open>
  Claim C1, at the input it is about. For every model and criteria,
  \<^verbatim>\<open>update(criteria).set({})\<close> and \<^verbatim>\<open>updateOne(criteria).set({})\<close> return the string
  \<^verbatim>\<open>'TODO'\<close> and build no statement. The string has no \<^verbatim>\<open>then\<close>, so awaiting it
  gives the string back and touches no connection; it has no \<^verbatim>\<open>fetch\<close> and no
  \<^verbatim>\<open>usingConnection\<close>, so \<^verbatim>\<open>.set({}).fetch()\<close> is a \<^verbatim>\<open>TypeError\<close> where the claim
  (and the repository's tests) have it resolve to the matched rows.
\<close>

theorem empty_update_returns_TODO:
  "Model_update_set E M criteria (Some []) = Inr (Plain (JStr ''TODO'')) \<and>
   Model_updateOne_set E M criteria (Some []) = Inr (Plain (JStr ''TODO'')) \<and>
   \<not> has_then (Plain (JStr ''TODO'')) \<and>
   call_fetch (Plain (JStr ''TODO'')) = Inl TypeError \<and>
   call_usingConnection c (Plain (JStr ''TODO'')) = Inl TypeError \<and>
   await E (Plain (JStr ''TODO'')) w = (Settled (Resolved (Value (JStr ''TODO''))), w)"
  by (simp add: Model_update_set_def Model_updateOne_set_def withDefaultValues_update_empty
      buildSetQuery_empty has_then_def call_fetch_def call_usingConnection_def await_def)

section \<open>Creating from an empty list\<close>

text \<open>
  Claim C10, at the input it is about. \<^verbatim>\<open>createEach([])\<close> builds no statement and
  returns a literal object without \<^verbatim>\<open>then\<close>: awaited directly it gives that object
  back, not an empty list, and its \<^verbatim>\<open>usingConnection\<close> returns \<^verbatim>\<open>undefined\<close>. Only
  through \<^verbatim>\<open>fetch()\<close> does the empty list come out. The claim (and the repository's
  test that the returned object has a \<^verbatim>\<open>then\<close> function) ask for the empty list on
  every path.
\<close>

theorem createEach_empty_stub:
  "Model_createEach E M [] = Inr (Stub StubTop) \<and>
   \<not> has_then (Stub StubTop) \<and>
   await E (Stub StubTop) w = (AwaitedItself StubTop, w) \<and>
   call_usingConnection c (Stub StubTop) = Inr (Plain JUndefined) \<and>
   await E (Plain JUndefined) w = (Settled (Resolved (Value JUndefined)), w) \<and>
   call_fetch (Stub StubTop) = Inr (Stub StubFetched) \<and>
   await E (Stub StubFetched) w = (Settled (Resolved (Value (JArr []))), w) \<and>
   call_usingConnection c (Stub StubFetched) = Inr (Plain (JArr []))"
  by (simp add: Model_createEach_def has_then_def call_fetch_def call_usingConnection_def await_def)

section \<open>Whole-table scope\<close>

lemma getFindCriteriaFrom_empty:
  "getFindCriteriaFrom E (JObj []) = Inr (''*'', JObj [], JUndefined, JUndefined)"
  by (simp add: getFindCriteriaFrom_def Object_entries_def)

lemma buildWhereQuery_empty: "buildWhereQuery E (JObj []) args = Inr ([], args)"
  by (simp add: buildWhereQuery_def truthy_def typeof_object_def Object_entries_def)

lemma buildWhereQuery_absent: "buildWhereQuery E JUndefined args = Inr ([], args)"
  by (simp add: buildWhereQuery_def truthy_def)

text \<open>
  Claim C6, at the inputs it is about. An absent and an empty criteria compile to the
  empty fragment; \<^verbatim>\<open>find()\<close> and \<^verbatim>\<open>find({})\<close> build the same statement, whose
  \<^verbatim>\<open>WHERE\<close> fragment is empty and which binds no argument.
  \<^verbatim>\<open>destroy\<close> is a function with an empty body: it builds no statement and returns
  \<^verbatim>\<open>undefined\<close>, which awaited gives \<^verbatim>\<open>undefined\<close> in an unchanged world, where
  the claim (and the repository's tests) have it delete every row.
\<close>

theorem find_whole_table_destroy_stub:
  "buildWhereQuery E JUndefined args = Inr ([], args) \<and>
   buildWhereQuery E (JObj []) args = Inr ([], args) \<and>
   Model_find E M JUndefined =
     Inr (Builder (sendNativeQuery
       (nl @ ''        SELECT *'' @ nl @ ''          FROM '' @ fmt_ident E (tableName M) @ nl @
        ''          '' @ nl @ ''      '')
       (Some []) (no_opts\<lparr> opt_Model := Some M, opt_returnRows := True \<rparr>))) \<and>
   Model_find E M (JObj []) = Model_find E M JUndefined \<and>
   Model_destroy E M JUndefined = Inr (Plain JUndefined) \<and>
   Model_destroy E M (JObj []) = Inr (Plain JUndefined) \<and>
   \<not> has_then (Plain JUndefined) \<and>
   await E (Plain JUndefined) w = (Settled (Resolved (Value JUndefined)), w)"
  by (simp add: Model_find_def getFindCriteriaFrom_empty buildWhereQuery_empty
      buildWhereQuery_absent Model_destroy_def has_then_def await_def no_opts_def)

section \<open>Criteria mappings\<close>

text \<open>
  The translation of a criteria mapping in the words of the specification, to compare
  \<open>buildWhereQuery\<close> with. \<open>n\<close> is the number of the next placeholder. A result
  \<open>None\<close> marks a value the specification says nothing about (an operator mapping
  without a key, a comparison with a value that is no scalar, \<^verbatim>\<open>undefined\<close>).
  \<^item> \<open>spec_clause\<close>: \<^verbatim>\<open>null\<close> gives \<^verbatim>\<open>col IS NULL\<close>; a sequence gives
    \<^verbatim>\<open>col=ANY($n)\<close> and binds the sequence as one parameter; an operator mapping with
    more than one key fails with \<open>InvalidCriteria\<close>; a scalar gives \<^verbatim>\<open>col=$n\<close>.
  \<^item> \<open>spec_operator\<close>, for a single-key operator mapping: \<^verbatim>\<open>!=\<close> with \<^verbatim>\<open>null\<close> gives
    \<^verbatim>\<open>col IS NOT NULL\<close>; \<^verbatim>\<open>!=\<close> with a sequence gives \<^verbatim>\<open>NOT ( col = ANY( $n ) )\<close>;
    one of the five operators with a scalar gives \<^verbatim>\<open>col<op>$n\<close>; any other operator
    fails with \<open>UnsupportedOperator\<close>.
  \<^item> \<open>spec_where\<close>: the clauses of the entries in their order, with the values they
    bind; the first failure is the result.
\<close>

definition scalar :: "jsval \<Rightarrow> bool" where
  "scalar v = (case v of JBool _ \<Rightarrow> True | JNum _ \<Rightarrow> True | JNaN \<Rightarrow> True | JInfinity _ \<Rightarrow> True | JStr _ \<Rightarrow> True | _ \<Rightarrow> False)"

definition spec_operator ::
  "env \<Rightarrow> nat \<Rightarrow> string \<Rightarrow> string \<Rightarrow> jsval \<Rightarrow> (js_error + string \<times> jsval list) option" where
  "spec_operator E n k op val =
     (if op = ''!='' \<and> val = JNull then Some (Inr (fmt_ident E k @ '' IS NOT NULL'', []))
      else if op = ''!='' \<and> isArray val then
        Some (Inr (''NOT ( '' @ fmt_ident E k @ '' = ANY( $'' @ string_of_nat n @ '' ) )'', [val]))
      else if op \<in> set [''<'', ''>'', ''<='', ''>='', ''!=''] then
        (if scalar val then Some (Inr (fmt_ident E k @ op @ ''$'' @ string_of_nat n, [val])) else None)
      else Some (Inl (UnsupportedOperator op)))"

definition spec_clause ::
  "env \<Rightarrow> nat \<Rightarrow> string \<Rightarrow> jsval \<Rightarrow> (js_error + string \<times> jsval list) option" where
  "spec_clause E n k v =
     (case v of
        JNull \<Rightarrow> Some (Inr (fmt_ident E k @ '' IS NULL'', []))
      | JArr xs \<Rightarrow> Some (Inr (fmt_ident E k @ ''=ANY($'' @ string_of_nat n @ '')'', [v]))
      | JObj ops \<Rightarrow>
          (case ops of
             [] \<Rightarrow> None
           | [(op, val)] \<Rightarrow> spec_operator E n k op val
           | _ \<Rightarrow> Some (Inl (InvalidCriteria k v)))
      | _ \<Rightarrow> if scalar v then Some (Inr (fmt_ident E k @ ''=$'' @ string_of_nat n, [v])) else None)"

fun spec_where ::
  "env \<Rightarrow> nat \<Rightarrow> (string \<times> jsval) list \<Rightarrow> (js_error + string list \<times> jsval list) option" where
  "spec_where E n [] = Some (Inr ([], []))"
| "spec_where E n ((k, v) # kvs) =
     (case spec_clause E n k v of
        None \<Rightarrow> None
      | Some (Inl e) \<Rightarrow> Some (Inl e)
      | Some (Inr (c, bound)) \<Rightarrow>
          (case spec_where E (n + length bound) kvs of
             None \<Rightarrow> None
           | Some (Inl e) \<Rightarrow> Some (Inl e)
           | Some (Inr (cs, bounds)) \<Rightarrow> Some (Inr (c # cs, bound @ bounds))))"

lemma where_op_spec:
  assumes "spec_operator E (Suc n) k op val = Some r"
  shows "where_op E k (op, val) (args, n, wher) =
           (case r of
              Inl e \<Rightarrow> Inl e
            | Inr (c, bound) \<Rightarrow> Inr (args @ bound, n + length bound, wher @ [c]))"
  using assms
  by (auto simp: spec_operator_def where_op_def safeOp_def split: if_splits)

lemma where_entry_spec:
  assumes "spec_clause E (Suc n) k v = Some r"
  shows "where_entry E (k, v) (args, n, wher) =
           (case r of
              Inl e \<Rightarrow> Inl e
            | Inr (c, bound) \<Rightarrow> Inr (args @ bound, n + length bound, wher @ [c]))"
proof (cases v)
  case (JObj ops)
  show ?thesis
  proof (cases ops)
    case Nil
    with JObj assms show ?thesis by (simp add: spec_clause_def)
  next
    case (Cons p ps)
    obtain op val where p: "p = (op, val)" by (cases p)
    show ?thesis
    proof (cases ps)
      case Nil
      with JObj Cons p assms have "spec_operator E (Suc n) k op val = Some r"
        by (simp add: spec_clause_def)
      from where_op_spec [OF this, of args wher] JObj Cons p Nil show ?thesis
        by (auto simp: where_entry_def isArray_def typeof_object_def Object_entries_def
            split: sum.splits)
    next
      case (Cons q qs)
      with JObj \<open>ops = p # ps\<close> p assms show ?thesis
        by (auto simp: spec_clause_def where_entry_def isArray_def typeof_object_def Object_entries_def)
    qed
  qed
qed (use assms in \<open>auto simp: spec_clause_def where_entry_def isArray_def typeof_object_def scalar_def\<close>)

lemma forEach_where_entry_spec:
  assumes "spec_where E (Suc n) kvs = Some r"
  shows "forEach (where_entry E) kvs (args, n, wher) =
           (case r of
              Inl e \<Rightarrow> Inl e
            | Inr (cs, bounds) \<Rightarrow> Inr (args @ bounds, n + length bounds, wher @ cs))"
  using assms
proof (induction kvs arbitrary: n args wher r)
  case Nil
  then show ?case by auto
next
  case (Cons kv kvs)
  obtain k v where kv: "kv = (k, v)" by (cases kv)
  from Cons.prems kv obtain rc where rc: "spec_clause E (Suc n) k v = Some rc"
    by (auto split: option.splits)
  note step = where_entry_spec [OF rc, of args wher]
  show ?case
  proof (cases rc)
    case (Inl e)
    with Cons.prems kv rc step show ?thesis by auto
  next
    case (Inr cb)
    obtain c bound where cb: "cb = (c, bound)" by (cases cb)
    from Cons.prems kv rc Inr cb obtain r' where
      r': "spec_where E (Suc (n + length bound)) kvs = Some r'"
      by (auto split: option.splits)
    note rest = Cons.IH [OF r', of "args @ bound" "wher @ [c]"]
    show ?thesis
    proof (cases r')
      case (Inl e)
      with Cons.prems kv rc \<open>rc = Inr cb\<close> cb r' step rest show ?thesis by auto
    next
      case (Inr csb)
      obtain cs bounds where "csb = (cs, bounds)" by (cases csb)
      with Inr Cons.prems kv rc \<open>rc = Inr cb\<close> cb r' step rest show ?thesis by auto
    qed
  qed
qed

text \<open>
  Claim C4. For a mapping-form criteria, wherever the specification's translation of the
  entries is defined, \<open>buildWhereQuery\<close> fails with the same error or returns the
  clauses joined with \<^verbatim>\<open>AND\<close> after \<^verbatim>\<open>WHERE\<close> (nothing for no clause), with the
  bound values appended to the arguments in the order of their placeholders.
\<close>

theorem buildWhereQuery_mapping:
  assumes "spec_where E (Suc (length args)) kvs = Some r"
  shows "buildWhereQuery E (JObj kvs) args =
           (case r of
              Inl e \<Rightarrow> Inl e
            | Inr (clauses, bounds) \<Rightarrow>
                Inr (if clauses = [] then [] else ''WHERE '' @ join '' AND '' clauses, args @ bounds))"
  using forEach_where_entry_spec [OF assms, of args "[]"]
  by (auto simp: buildWhereQuery_def truthy_def typeof_object_def Object_entries_def
      split: sum.splits)


text \<open>
  Claim C4, at a mapping with one entry of every kind, at an unknown operator and at an
  operator mapping with two keys.
\<close>

theorem buildWhereQuery_mapping_witness:
  "spec_where ex_env (Suc (length [])) ex_criteria =
     Some (Inr ([''a IS NULL'', ''b=ANY($1)'', ''c IS NOT NULL'', ''NOT ( d = ANY( $2 ) )'', ''e>=$3'', ''f=$4''],
                [JArr [JNum 1, JNum 2], JArr [JNum 3], JNum 4, JStr ''x''])) \<and>
   buildWhereQuery ex_env (JObj ex_criteria) [] =
     Inr (''WHERE a IS NULL AND b=ANY($1) AND c IS NOT NULL AND NOT ( d = ANY( $2 ) ) AND e>=$3 AND f=$4'',
          [JArr [JNum 1, JNum 2], JArr [JNum 3], JNum 4, JStr ''x'']) \<and>
   spec_where ex_env (Suc (length [])) [(''a'', JObj [(''~'', JNum 1)])] = Some (Inl (UnsupportedOperator ''~'')) \<and>
   buildWhereQuery ex_env (JObj [(''a'', JObj [(''~'', JNum 1)])]) [] = Inl (UnsupportedOperator ''~'') \<and>
   spec_where ex_env (Suc (length [])) [(''a'', JObj [(''<'', JNum 1), (''>'', JNum 0)])] =
     Some (Inl (InvalidCriteria ''a'' (JObj [(''<'', JNum 1), (''>'', JNum 0)]))) \<and>
   buildWhereQuery ex_env (JObj [(''a'', JObj [(''<'', JNum 1), (''>'', JNum 0)])]) [] =
     Inl (InvalidCriteria ''a'' (JObj [(''<'', JNum 1), (''>'', JNum 0)]))"
proof -
  have h1: "spec_where ex_env (Suc (length [])) ex_criteria =
     Some (Inr ([''a IS NULL'', ''b=ANY($1)'', ''c IS NOT NULL'', ''NOT ( d = ANY( $2 ) )'', ''e>=$3'', ''f=$4''],
                [JArr [JNum 1, JNum 2], JArr [JNum 3], JNum 4, JStr ''x'']))"
    by (simp add: ex_criteria_def ex_env_def spec_clause_def spec_operator_def scalar_def
        isArray_def string_of_nat.simps)
  have h2: "spec_where ex_env (Suc (length [])) [(''a'', JObj [(''~'', JNum 1)])] =
     Some (Inl (UnsupportedOperator ''~''))"
    by (simp add: spec_clause_def spec_operator_def isArray_def)
  have h3: "spec_where ex_env (Suc (length [])) [(''a'', JObj [(''<'', JNum 1), (''>'', JNum 0)])] =
     Some (Inl (InvalidCriteria ''a'' (JObj [(''<'', JNum 1), (''>'', JNum 0)])))"
    by (simp add: spec_clause_def)
  show ?thesis
    using buildWhereQuery_mapping [OF h1] buildWhereQuery_mapping [OF h2]
      buildWhereQuery_mapping [OF h3] h1 h2 h3
    by simp
qed

section \<open>Connections\<close>

text \<open>\<open>sent_on c ev\<close>: the event is a statement sent on the connection \<open>c\<close>.
  \<open>follows c w w'\<close>: the world \<open>w'\<close> is \<open>w\<close> and then statements sent on \<open>c\<close>,
  nothing else.\<close>

definition sent_on :: "client \<Rightarrow> event \<Rightarrow> bool" where
  "sent_on c ev = (case ev of Sent c' sql args \<Rightarrow> c' = c | _ \<Rightarrow> False)"

definition follows :: "client \<Rightarrow> world \<Rightarrow> world \<Rightarrow> bool" where
  "follows c w w' = (\<exists>sent. list_all (sent_on c) sent \<and> w' = w @ sent)"

lemma follows_refl: "follows c w w"
  unfolding follows_def by (rule exI [of _ "[]"]) simp

lemma follows_query: "follows c w (w @ [Sent c sql args])"
  unfolding follows_def by (rule exI [of _ "[Sent c sql args]"]) (simp add: sent_on_def)

lemma populate_single_world: "follows c w (snd (populate_single E M p c ret w))"
  by (simp add: populate_single_def query_def follows_refl follows_query
      split: option.splits sum.splits)

lemma populate_multi_world: "follows c w (snd (populate_multi E M p c ret w))"
  by (simp add: populate_multi_def query_def Let_def follows_refl follows_query
      split: option.splits sum.splits prod.splits)

lemma run_statement_world:
  "follows c (w @ [Sent c sql args]) (snd (run_statement E opts c sql args w))"
  by (simp add: run_statement_def query_def follows_refl populate_single_world populate_multi_world
      split: option.splits sum.splits)

lemma run_statement_sent:
  "\<exists>sent. list_all (sent_on c) sent \<and>
          snd (run_statement E opts c sql args w) = w @ Sent c sql args # sent"
  using run_statement_world [of c w sql args E opts] by (auto simp: follows_def)

lemma try_block_bound:
  assumes "opt_client opts = Some c"
  shows "\<exists>r sent. list_all (sent_on c) sent \<and>
           try_block E opts sql args w = (r, Some c, w @ Sent c sql args # sent)"
proof -
  obtain sent where s: "list_all (sent_on c) sent"
    "snd (run_statement E opts c sql args w) = w @ Sent c sql args # sent"
    using run_statement_sent [of c E opts sql args w] by blast
  have "try_block E opts sql args w = (fst (run_statement E opts c sql args w), Some c, w @ Sent c sql args # sent)"
    using assms s(2) by (simp add: try_block_def acquire_def split_beta)
  with s(1) show ?thesis by blast
qed

lemma try_block_leased:
  assumes "opt_client opts = None" and "pool_connect E w = Inr c"
  shows "\<exists>r sent. list_all (sent_on c) sent \<and>
           try_block E opts sql args w = (r, Some c, w @ Leased c # Sent c sql args # sent)"
proof -
  obtain sent where s: "list_all (sent_on c) sent"
    "snd (run_statement E opts c sql args (w @ [Leased c])) = (w @ [Leased c]) @ Sent c sql args # sent"
    using run_statement_sent [of c E opts sql args "w @ [Leased c]"] by blast
  have "try_block E opts sql args w =
          (fst (run_statement E opts c sql args (w @ [Leased c])), Some c, w @ Leased c # Sent c sql args # sent)"
    using assms s(2) by (simp add: try_block_def acquire_def split_beta)
  with s(1) show ?thesis by blast
qed

lemma try_block_refused:
  assumes "opt_client opts = None" and "pool_connect E w = Inl e"
  shows "try_block E opts sql args w = (Inl e, None, w)"
  using assms by (simp add: try_block_def acquire_def)

text \<open>
  Claim C8, as the code has it. Forcing a builder changes the world as follows, when the
  \<^verbatim>\<open>ORDER BY\<close> fragment compiles. With a connection \<open>c\<close> bound by
  \<^verbatim>\<open>usingConnection\<close>, the builder's statement is sent on \<open>c\<close>, then only statements
  on \<open>c\<close>: nothing is leased and nothing released. Without one, when the pool grants a
  connection \<open>c\<close>: \<open>c\<close> is leased, the builder's statement is sent on \<open>c\<close>, then only
  statements on \<open>c\<close>, and \<open>c\<close> is released once, as the last thing, whatever the
  storage answered (the answers of \<open>E\<close> are arbitrary, so this covers the success and
  the failure path). When the \<^verbatim>\<open>ORDER BY\<close> fragment raises before the \<^verbatim>\<open>try\<close> block,
  or the pool refuses a connection, the world is unchanged: nothing is leased, sent or
  released.
\<close>

theorem connection_lease_release:
  "case buildOrderByQuery E (opt_orderBy (b_opts b)) of
     Inl e \<Rightarrow> thenB E b w = (Threw e, w)
   | Inr orderByQuery \<Rightarrow>
       (case opt_client (b_opts b) of
          Some c \<Rightarrow>
            (\<exists>sent. list_all (sent_on c) sent \<and>
               snd (thenB E b w) =
                 w @ Sent c (statement_text E b orderByQuery) (statement_args E b) # sent)
        | None \<Rightarrow>
            (case pool_connect E w of
               Inl e \<Rightarrow> thenB E b w = (intercepted (b_opts b) e, w)
             | Inr c \<Rightarrow>
                 (\<exists>sent. list_all (sent_on c) sent \<and>
                    snd (thenB E b w) =
                      w @ Leased c # Sent c (statement_text E b orderByQuery) (statement_args E b) #
                        sent @ [Released c])))"
proof (cases "buildOrderByQuery E (opt_orderBy (b_opts b))")
  case (Inl e)
  then show ?thesis by (simp add: thenB_def attempt_def)
next
  case (Inr ob)
  let ?sql = "statement_text E b ob"
  let ?args = "statement_args E b"
  have att: "attempt E b w = Inr (try_block E (b_opts b) ?sql ?args w)"
    using Inr by (simp add: attempt_def)
  show ?thesis
  proof (cases "opt_client (b_opts b)")
    case (Some c)
    obtain r sent where s: "list_all (sent_on c) sent"
      "try_block E (b_opts b) ?sql ?args w = (r, Some c, w @ Sent c ?sql ?args # sent)"
      using try_block_bound [OF Some] by blast
    have "snd (thenB E b w) = w @ Sent c ?sql ?args # sent"
      using Some s(2) by (simp add: thenB_def att)
    with s(1) show ?thesis using Inr Some by auto
  next
    case None
    show ?thesis
    proof (cases "pool_connect E w")
      case (Inl e)
      have "try_block E (b_opts b) ?sql ?args w = (Inl e, None, w)"
        using try_block_refused [OF None Inl] .
      then show ?thesis
        using None Inr Inl by (simp add: thenB_def att)
    next
      case c: (Inr c)
      obtain r sent where s: "list_all (sent_on c) sent"
        "try_block E (b_opts b) ?sql ?args w = (r, Some c, w @ Leased c # Sent c ?sql ?args # sent)"
        using try_block_leased [OF None c] by blast
      have "snd (thenB E b w) = w @ Leased c # Sent c ?sql ?args # sent @ [Released c]"
        using None s(2) by (simp add: thenB_def att release_def)
      with s(1) show ?thesis using Inr None c by auto
    qed
  qed
qed

lemma ex_statement_unbound: "opt_client (b_opts (sort_by srt ex_statement)) = None"
  by (simp add: sort_by_def ex_statement_def sendNativeQuery_def no_opts_def)

text \<open>
  Claim C8 as stated has every builder without a bound connection lease one from the pool
  and release it once. A builder without a bound connection whose sort argument has a
  third word is forced and leases nothing: \<^verbatim>\<open>then\<close> raises before the \<^verbatim>\<open>try\<close> block.
  Nor is anything leased, or released, when the pool refuses.
\<close>

theorem unbound_builder_without_lease:
  "opt_client (b_opts (sort_by (JStr ''name asc first'') ex_statement)) = None \<and>
   thenB ex_env (sort_by (JStr ''name asc first'') ex_statement) [] =
     (Threw (InvalidArgument ''Unexpected extras in ORDER BY clause''), []) \<and>
   opt_client (b_opts ex_statement) = None \<and>
   thenB ex_env_refusing ex_statement [] =
     (Rejected (RejErr (StorageEngineError ''53300'' ''too many connections'')), [])"
  by code_simp

text \<open>The three ways of the theorem at a statement: on a bound connection, on a leased
  one, and on a leased one when the storage fails.\<close>

lemma bound_and_leased_examples:
  "snd (thenB ex_env (usingConnection 7 ex_statement) []) =
     [Sent 7 ''INSERT INTO simple ( name ) VALUES ($1)'' (Some [JStr ''alice''])] \<and>
   thenB ex_env ex_statement [] =
     (Resolved (Raw \<lparr> rows = [], rowCount = 0 \<rparr>),
      [Leased 0, Sent 0 ''INSERT INTO simple ( name ) VALUES ($1)'' (Some [JStr ''alice'']), Released 0]) \<and>
   thenB ex_env_unique ex_statement [] =
     (Rejected (RejErr (StorageEngineError ''23505'' ''duplicate key'')),
      [Leased 0, Sent 0 ''INSERT INTO simple ( name ) VALUES ($1)'' (Some [JStr ''alice'']), Released 0])"
  by code_simp

section \<open>One timestamp for one statement\<close>

lemma resolve_now_nth:
  "i < length args \<Longrightarrow>
     resolve_now now args ! i = (if args ! i = NOW then JNum (of_int now) else args ! i)"
  by (simp add: resolve_now_def)

lemma thenB_first_statement:
  assumes "buildOrderByQuery E (opt_orderBy (b_opts b)) = Inr ob"
    and "acquire E (b_opts b) w = (Inr c, w1)"
  shows "\<exists>sent. snd (thenB E b w) =
           w1 @ Sent c (statement_text E b ob) (statement_args E b) # sent"
proof -
  let ?sql = "statement_text E b ob"
  let ?args = "statement_args E b"
  obtain sent where s: "snd (run_statement E (b_opts b) c ?sql ?args w1) = w1 @ Sent c ?sql ?args # sent"
    using run_statement_sent [of c E "b_opts b" ?sql ?args w1] by blast
  have "snd (thenB E b w) = w1 @ Sent c ?sql ?args # sent \<or>
        snd (thenB E b w) = w1 @ Sent c ?sql ?args # (sent @ [Released c])"
    using assms s
    by (simp add: thenB_def attempt_def try_block_def split_beta release_def)
  then show ?thesis by blast
qed

text \<open>
  Claim C3. When a builder with arguments \<open>args\<close> is forced and has its connection
  \<open>c\<close>, the first thing it does is send its statement on \<open>c\<close>, with arguments
  \<open>args'\<close> in which every placeholder \<open>NOW\<close> of \<open>args\<close> is the one reading
  \<open>Date_now E\<close> of the clock and every other argument is unchanged: all rows of one
  multi-row create get the same timestamp. The reading is taken by each execution for
  itself: an execution with another reading \<open>Date_now E'\<close> (a second statement, in the
  same transaction or not) resolves the same placeholder to another value.
\<close>

theorem one_timestamp_per_statement:
  assumes "buildOrderByQuery E (opt_orderBy (b_opts b)) = Inr orderByQuery"
    and "acquire E (b_opts b) w = (Inr c, w1)"
    and "b_args b = Some args"
  shows "\<exists>sql args' sent.
           snd (thenB E b w) = w1 @ Sent c sql (Some args') # sent \<and>
           length args' = length args \<and>
           (\<forall>i<length args.
              args' ! i = (if args ! i = NOW then JNum (of_int (Date_now E)) else args ! i) \<and>
              (args ! i = NOW \<and> Date_now E \<noteq> Date_now E' \<longrightarrow>
                 args' ! i \<noteq> resolve_now (Date_now E') args ! i))"
proof -
  obtain sent where
    s: "snd (thenB E b w) =
          w1 @ Sent c (statement_text E b orderByQuery) (Some (resolve_now (Date_now E) args)) # sent"
    using thenB_first_statement [OF assms(1,2)] assms(3) by (auto simp: statement_args_def)
  have "length (resolve_now (Date_now E) args) = length args"
    by (simp add: resolve_now_def)
  moreover have "\<forall>i<length args.
      resolve_now (Date_now E) args ! i = (if args ! i = NOW then JNum (of_int (Date_now E)) else args ! i) \<and>
      (args ! i = NOW \<and> Date_now E \<noteq> Date_now E' \<longrightarrow>
         resolve_now (Date_now E) args ! i \<noteq> resolve_now (Date_now E') args ! i)"
    by (simp add: resolve_now_nth)
  ultimately show ?thesis using s by blast
qed

lemma ex_insert_args:
  "b_args ex_insert = Some [JStr ''alice'', NOW, NOW, JStr ''bob'', NOW, NOW] \<and>
   opt_orderBy (b_opts ex_insert) = JUndefined \<and> opt_client (b_opts ex_insert) = None"
  by code_simp

text \<open>
  Claim C3, at the builder of \<^verbatim>\<open>Audited.createEach\<close> for two rows, forced twice on
  the connection \<open>7\<close> of one transaction: the four placeholders of the statement get
  one timestamp, and the later execution gets another one.
\<close>

theorem one_timestamp_per_statement_witness:
  "(\<exists>sql sent. snd (thenB ex_env (usingConnection 7 ex_insert) []) =
      Sent 7 sql (Some [JStr ''alice'', JNum 1700000000000, JNum 1700000000000,
                        JStr ''bob'', JNum 1700000000000, JNum 1700000000000]) # sent) \<and>
   (\<exists>sql sent. snd (thenB ex_env_later (usingConnection 7 ex_insert) []) =
      Sent 7 sql (Some [JStr ''alice'', JNum 1700000000001, JNum 1700000000001,
                        JStr ''bob'', JNum 1700000000001, JNum 1700000000001]) # sent)"
proof -
  let ?b = "usingConnection 7 ex_insert"
  let ?args = "[JStr ''alice'', NOW, NOW, JStr ''bob'', NOW, NOW]"
  have h3: "b_args ?b = Some ?args"
    using ex_insert_args by (simp add: usingConnection_def)
  have resolved: "args' = resolve_now t ?args"
    if "length args' = length ?args"
      and "\<forall>i<length ?args. args' ! i = (if ?args ! i = NOW then JNum (of_int t) else ?args ! i) \<and> Q i"
    for args' t Q
  proof (rule nth_equalityI)
    show "length args' = length (resolve_now t ?args)" using that(1) by (simp add: resolve_now_def)
  next
    fix i assume "i < length args'"
    then have i: "i < length ?args" using that(1) by simp
    with that(2) have "args' ! i = (if ?args ! i = NOW then JNum (of_int t) else ?args ! i)" by blast
    also have "\<dots> = resolve_now t ?args ! i" using i by (simp only: resolve_now_nth)
    finally show "args' ! i = resolve_now t ?args ! i" .
  qed
  have first: "\<exists>sql sent. snd (thenB E ?b []) = Sent 7 sql (Some (resolve_now (Date_now E) ?args)) # sent"
    if h1: "buildOrderByQuery E (opt_orderBy (b_opts ?b)) = Inr []"
      and h2: "acquire E (b_opts ?b) [] = (Inr 7, [])" for E
  proof -
    from one_timestamp_per_statement [OF h1 h2 h3, of E]
    obtain sql args' sent where
      s: "snd (thenB E ?b []) = [] @ Sent 7 sql (Some args') # sent"
      and l: "length args' = length ?args"
      and a: "\<forall>i<length ?args.
              args' ! i = (if ?args ! i = NOW then JNum (of_int (Date_now E)) else ?args ! i) \<and>
              (?args ! i = NOW \<and> Date_now E \<noteq> Date_now E \<longrightarrow>
                 args' ! i \<noteq> resolve_now (Date_now E) ?args ! i)"
      by blast
    from resolved [OF l a] s show ?thesis by auto
  qed
  have o: "opt_orderBy (b_opts ?b) = JUndefined" "opt_client (b_opts ?b) = Some 7"
    using ex_insert_args by (simp_all add: usingConnection_def)
  have "buildOrderByQuery ex_env (opt_orderBy (b_opts ?b)) = Inr []"
    and "acquire ex_env (b_opts ?b) [] = (Inr 7, [])"
    and "buildOrderByQuery ex_env_later (opt_orderBy (b_opts ?b)) = Inr []"
    and "acquire ex_env_later (b_opts ?b) [] = (Inr 7, [])"
    using o by (simp_all add: buildOrderByQuery_def truthy_def acquire_def)
  from first [OF this(1,2)] first [OF this(3,4)] show ?thesis
    by (simp add: resolve_now_def ex_env_def ex_env_later_def)
qed

section \<open>Interception of failures\<close>

text \<open>
  Claim C7, as the code has it. When the \<^verbatim>\<open>try\<close> block of a forced builder fails with
  \<open>err\<close>, the table of handlers is read at the native code of \<open>err\<close> (at the name
  \<^verbatim>\<open>undefined\<close> when \<open>err\<close> has no code):
  \<^item> a handler registered there that is falsy (\<^verbatim>\<open>undefined\<close>, \<^verbatim>\<open>null\<close>,
    \<^verbatim>\<open>false\<close>, \<^verbatim>\<open>0\<close>, the empty string): \<open>err\<close> itself is the rejection value;
  \<^item> a function: what it returns for \<open>err\<close> is the rejection value (and what it raises
    leaves \<^verbatim>\<open>then\<close>);
  \<^item> a non-empty string: the string is the rejection value;
  \<^item> any other value (a number, \<^verbatim>\<open>true\<close>, an object, an array): \<open>NotImplemented\<close>;
  \<^item> no handler registered there, and the code is not the name of a member that every
    object inherits: \<open>err\<close> itself is the rejection value;
  \<^item> no handler registered there, and the code is such a name: the inherited member is
    taken for the handler. \<^verbatim>\<open>constructor\<close> gives \<open>err\<close> back, \<^verbatim>\<open>toString\<close> gives
    the string \<^verbatim>\<open>[object Undefined]\<close>, \<^verbatim>\<open>__proto__\<close> is an object
    (\<open>NotImplemented\<close>), and each of the others raises a \<^verbatim>\<open>TypeError\<close>.
\<close>

theorem failure_interception:
  assumes "attempt E b w = Inr (Inl err, cl, w')"
  shows "fst (thenB E b w) =
           (let k = (case code_of err of None \<Rightarrow> ''undefined'' | Some c \<Rightarrow> c) in
            case map_of (opt_intercepters (b_opts b)) k of
              Some (HFun f) \<Rightarrow> (case f err of Inl e \<Rightarrow> Threw e | Inr v \<Rightarrow> Rejected v)
            | Some (HVal v) \<Rightarrow>
                if \<not> truthy v then Rejected (RejErr err)
                else if \<exists>s. v = JStr s then Rejected (RejVal v)
                else Threw NotImplemented
            | None \<Rightarrow>
                if k \<notin> set Object_prototype_names \<or> k = ''constructor'' then Rejected (RejErr err)
                else if k = ''toString'' then Rejected (RejVal (JStr ''[object Undefined]''))
                else if k = ''__proto__'' then Threw NotImplemented
                else Threw TypeError)"
proof -
  define k where "k = (case code_of err of None \<Rightarrow> ''undefined'' | Some c \<Rightarrow> c)"
  have out: "fst (thenB E b w) = intercepted (b_opts b) err"
    using assms by (simp add: thenB_def)
  have names: "''constructor'' \<in> set Object_prototype_names"
    "''toString'' \<in> set Object_prototype_names" "''__proto__'' \<in> set Object_prototype_names"
    by (simp_all add: Object_prototype_names_def)
  show ?thesis
  proof (cases "map_of (opt_intercepters (b_opts b)) k")
    case (Some h)
    show ?thesis
    proof (cases h)
      case (HFun f)
      with Some out show ?thesis
        by (simp add: intercepted_def handler_at_def k_def [symmetric] Let_def)
    next
      case (HVal v)
      with Some out show ?thesis
        by (cases v) (simp_all add: intercepted_def handler_at_def k_def [symmetric] Let_def)
    qed
  next
    case None
    have found: "handler_at (b_opts b) err = inherited_handler k"
      using None by (simp add: handler_at_def k_def [symmetric] Let_def)
    consider (absent) "k \<notin> set Object_prototype_names"
      | (ctor) "k = ''constructor''"
      | (tostr) "k = ''toString''"
      | (proto) "k = ''__proto__''"
      | (other) "k \<in> set Object_prototype_names" "k \<noteq> ''constructor''" "k \<noteq> ''toString''"
          "k \<noteq> ''__proto__''"
      by blast
    then have "intercepted (b_opts b) err =
        (if k \<notin> set Object_prototype_names \<or> k = ''constructor'' then Rejected (RejErr err)
         else if k = ''toString'' then Rejected (RejVal (JStr ''[object Undefined]''))
         else if k = ''__proto__'' then Threw NotImplemented
         else Threw TypeError)"
    proof cases
      case absent
      then have "k \<noteq> ''__proto__''" using names by auto
      with absent show ?thesis
        by (simp add: intercepted_def found inherited_handler_def)
    next
      case ctor
      then show ?thesis
        using names by (simp add: intercepted_def found inherited_handler_def call_inherited_def)
    next
      case tostr
      then show ?thesis
        using names by (simp add: intercepted_def found inherited_handler_def call_inherited_def)
    next
      case proto
      then show ?thesis
        using names by (simp add: intercepted_def found inherited_handler_def truthy_def)
    next
      case other
      then show ?thesis
        by (simp add: intercepted_def found inherited_handler_def call_inherited_def)
    qed
    with out None show ?thesis by (simp add: k_def [symmetric] Let_def)
  qed
qed

lemma ex_attempt_unique:
  "attempt ex_env_unique (intercept errName h ex_statement) [] =
     Inr (Inl (StorageEngineError ''23505'' ''duplicate key''), Some 0,
          [Leased 0, Sent 0 ''INSERT INTO simple ( name ) VALUES ($1)'' (Some [JStr ''alice''])])"
  by (simp add: attempt_def try_block_def acquire_def run_statement_def query_def
      statement_text_def statement_args_def
      buildOrderByQuery_def buildLimitQuery_def truthy_def resolve_now_def
      intercept_def ex_statement_def sendNativeQuery_def no_opts_def ex_env_unique_def ex_env_def)

lemma ex_registered:
  "map_of (opt_intercepters (b_opts (intercept ''E_UNIQUE'' h ex_statement))) ''23505'' = Some h"
  by (simp add: intercept_def getErrorCodesFor_def ex_statement_def sendNativeQuery_def no_opts_def)

lemma ex_not_registered:
  "map_of (opt_intercepters (b_opts (intercept ''E_OTHER'' h ex_statement))) ''23505'' = None"
  by (simp add: intercept_def getErrorCodesFor_def ex_statement_def sendNativeQuery_def no_opts_def)

lemma ex_code_not_inherited: "''23505'' \<notin> set Object_prototype_names"
  by (simp add: Object_prototype_names_def)

text \<open>
  Claim C7, at a storage that answers with the native code \<^verbatim>\<open>23505\<close>: a string
  registered for \<^verbatim>\<open>E_UNIQUE\<close> is the rejection value, a function's result is, and with
  a handler registered under a name that maps to no native code the error comes back
  unchanged.
\<close>

theorem failure_interception_witness:
  "attempt ex_env_unique (intercept ''E_UNIQUE'' (HVal (JStr ''emailAlreadyInUse'')) ex_statement) [] =
     Inr (Inl (StorageEngineError ''23505'' ''duplicate key''), Some 0,
          [Leased 0, Sent 0 ''INSERT INTO simple ( name ) VALUES ($1)'' (Some [JStr ''alice''])]) \<and>
   fst (thenB ex_env_unique (intercept ''E_UNIQUE'' (HVal (JStr ''emailAlreadyInUse'')) ex_statement) []) =
     Rejected (RejVal (JStr ''emailAlreadyInUse'')) \<and>
   fst (thenB ex_env_unique (intercept ''E_UNIQUE'' (HFun (\<lambda>e. Inr (RejVal (JStr ''taken'')))) ex_statement) []) =
     Rejected (RejVal (JStr ''taken'')) \<and>
   fst (thenB ex_env_unique (intercept ''E_OTHER'' (HVal (JStr ''emailAlreadyInUse'')) ex_statement) []) =
     Rejected (RejErr (StorageEngineError ''23505'' ''duplicate key''))"
  using failure_interception [OF ex_attempt_unique, of "''E_UNIQUE''" "HVal (JStr ''emailAlreadyInUse'')"]
    failure_interception [OF ex_attempt_unique, of "''E_UNIQUE''" "HFun (\<lambda>e. Inr (RejVal (JStr ''taken'')))"]
    failure_interception [OF ex_attempt_unique, of "''E_OTHER''" "HVal (JStr ''emailAlreadyInUse'')"]
    ex_attempt_unique [of "''E_UNIQUE''" "HVal (JStr ''emailAlreadyInUse'')"]
  by (simp add: ex_registered ex_not_registered ex_code_not_inherited truthy_def)

text \<open>
  Claim C7 as stated has every literal value used verbatim. The number \<open>42\<close>
  registered for \<^verbatim>\<open>E_UNIQUE\<close> is not the rejection value: \<^verbatim>\<open>then\<close> raises
  \<open>NotImplemented\<close>. The empty string is not either: the original error is.
\<close>

theorem literal_handlers_not_verbatim:
  "fst (thenB ex_env_unique (intercept ''E_UNIQUE'' (HVal (JNum 42)) ex_statement) []) = Threw NotImplemented \<and>
   fst (thenB ex_env_unique (intercept ''E_UNIQUE'' (HVal (JStr [])) ex_statement) []) =
     Rejected (RejErr (StorageEngineError ''23505'' ''duplicate key''))"
  by (simp add: thenB_def ex_attempt_unique intercepted_def handler_at_def ex_registered truthy_def)

text \<open>A storage that fails with the code \<^verbatim>\<open>toString\<close>, \<^verbatim>\<open>__proto__\<close> or
  \<^verbatim>\<open>constructor\<close>, and a builder with no handler at all: the inherited member is found.\<close>

lemma inherited_member_found:
  "fst (thenB (ex_env_named ''toString'') ex_statement []) = Rejected (RejVal (JStr ''[object Undefined]'')) \<and>
   fst (thenB (ex_env_named ''__proto__'') ex_statement []) = Threw NotImplemented \<and>
   fst (thenB (ex_env_named ''constructor'') ex_statement []) =
     Rejected (RejErr (StorageEngineError ''constructor'' ''failed''))"
  by code_simp

section \<open>Population\<close>

text \<open>
  Claim C2 as stated has no follow-up lookup for a null foreign key in single-row mode,
  and only the distinct non-null keys in the lookup of multi-row mode. For the owner
  without a related record the single-row lookup is sent, with \<^verbatim>\<open>null\<close> as its
  argument; for the three owners the multi-row lookup is sent with all three keys, the
  repeated one twice and the \<^verbatim>\<open>null\<close>.
\<close>

theorem populate_null_key_lookup:
  "Sent 0 ''SELECT * FROM simple WHERE id=$1'' (Some [JNull])
     \<in> set (snd (thenB ex_env_rel ex_findOne_populate [])) \<and>
   Sent 0 ''SELECT * FROM simple WHERE id=ANY($1)'' (Some [JArr [JNum 1, JNum 1, JNull]])
     \<in> set (snd (thenB ex_env_rel ex_find_populate []))"
  by code_simp

text \<open>
  What the cast of a result row leaves of a \<^verbatim>\<open>null\<close> under an attribute with the
  configuration \<open>cfg\<close>: the \<^verbatim>\<open>null\<close>, unless the attribute forbids it and has a type
  with a zero value (\<^verbatim>\<open>''\<close>, \<^verbatim>\<open>0\<close>, \<^verbatim>\<open>false\<close>), which then replaces it.
\<close>

definition null_after_cast :: "attr_cfg \<Rightarrow> jsval" where
  "null_after_cast cfg =
     (if allowNull cfg then JNull
      else (case zero_of_type (attr_type cfg) of None \<Rightarrow> JNull | Some z \<Rightarrow> z))"

lemma get_prop_set_other: "k' \<noteq> k \<Longrightarrow> get_prop (set_prop k v r) k' = get_prop r k'"
  by (simp add: get_prop_def set_prop_def update_conv')

lemma get_prop_set_own: "map_of r k \<noteq> None \<Longrightarrow> get_prop (set_prop k v r) k = v"
  by (auto simp: get_prop_def set_prop_def update_conv')

lemma get_prop_set_named: "k \<noteq> ''__proto__'' \<Longrightarrow> get_prop (set_prop k v r) k = v"
  by (simp add: get_prop_def set_prop_def update_conv')

lemma get_prop_null_own: "get_prop r k = JNull \<Longrightarrow> map_of r k = Some JNull"
  by (auto simp: get_prop_def split: option.splits if_splits)

lemma zero_not_null: "zero_of_type t = Some z \<Longrightarrow> z \<noteq> JNull"
  by (auto simp: zero_of_type_def split: if_splits)

lemma withTimestampsCast_id: "get_prop (withTimestampsCast E r) ''id'' = get_prop r ''id''"
  by (simp add: withTimestampsCast_def Let_def get_prop_set_other)

lemma withTimestampsCast_null:
  assumes "get_prop r p = JNull"
  shows "get_prop (withTimestampsCast E r) p = JNull"
proof -
  let ?r1 = "if truthy (get_prop r ''created_at'')
             then set_prop ''created_at'' (toNumber E (get_prop r ''created_at'')) r else r"
  have 1: "get_prop ?r1 p = JNull"
  proof (cases "p = ''created_at''")
    case True
    with assms show ?thesis by (simp add: truthy_def)
  next
    case False
    with assms show ?thesis by (simp add: get_prop_set_other)
  qed
  have "get_prop (if truthy (get_prop ?r1 ''updated_at'')
                  then set_prop ''updated_at'' (toNumber E (get_prop ?r1 ''updated_at'')) ?r1 else ?r1) p = JNull"
  proof (cases "p = ''updated_at''")
    case True
    with 1 show ?thesis by (simp add: truthy_def)
  next
    case False
    with 1 show ?thesis by (simp add: get_prop_set_other)
  qed
  then show ?thesis by (simp add: withTimestampsCast_def Let_def)
qed

lemma cast_entry_id:
  assumes "cast_entry M kv r = Inr r'" and "get_prop r ''id'' \<noteq> JNull"
  shows "get_prop r' ''id'' \<noteq> JNull"
proof -
  obtain k v where kv: "kv = (k, v)" by (cases kv)
  from assms(1) kv consider "r' = r" | z where "r' = set_prop k z r" "z \<noteq> JNull"
    by (auto simp: cast_entry_def dest: zero_not_null split: if_splits option.splits)
  then show ?thesis
  proof cases
    case 1
    with assms(2) show ?thesis by simp
  next
    case 2
    show ?thesis
    proof (cases "k = ''id''")
      case True
      with 2 show ?thesis by (simp add: get_prop_set_named)
    next
      case False
      with 2 assms(2) show ?thesis by (simp add: get_prop_set_other)
    qed
  qed
qed

lemma forEach_cast_entry_id:
  assumes "forEach (cast_entry M) es r = Inr r'" and "get_prop r ''id'' \<noteq> JNull"
  shows "get_prop r' ''id'' \<noteq> JNull"
  using assms
proof (induction es arbitrary: r)
  case Nil
  then show ?case by simp
next
  case (Cons e es)
  from Cons.prems(1) obtain r1 where r1: "cast_entry M e r = Inr r1" "forEach (cast_entry M) es r1 = Inr r'"
    by (auto split: sum.splits)
  from cast_entry_id [OF r1(1) Cons.prems(2)] have "get_prop r1 ''id'' \<noteq> JNull" .
  from Cons.IH [OF r1(2) this] show ?case .
qed

lemma cast_row_id:
  assumes "cast_row E M r = Inr r'" and "get_prop r ''id'' \<noteq> JNull"
  shows "get_prop r' ''id'' \<noteq> JNull"
proof -
  have "forEach (cast_entry M) (withTimestampsCast E r) (withTimestampsCast E r) = Inr r'"
    using assms(1) by (simp add: cast_row_def Let_def)
  moreover have "get_prop (withTimestampsCast E r) ''id'' \<noteq> JNull"
    using assms(2) by (simp add: withTimestampsCast_id)
  ultimately show ?thesis by (rule forEach_cast_entry_id)
qed

lemma map_of_set_other: "k \<noteq> p \<Longrightarrow> map_of (set_prop k v s) p = map_of s p"
  by (simp add: set_prop_def update_conv')

lemma cast_entry_other:
  assumes "cast_entry M (k, v) s = Inr s'" and "k \<noteq> p"
  shows "map_of s' p = map_of s p"
proof -
  from assms(1) have "s' = s \<or> (\<exists>z. s' = set_prop k z s)"
    by (auto simp: cast_entry_def split: if_splits option.splits)
  with assms(2) show ?thesis by (auto simp: map_of_set_other)
qed

lemma cast_entry_same:
  assumes "cast_entry M (p, v) s = Inr s'" and "attribute_of M p = Some cfg"
    and "map_of s p = Some x"
  shows "map_of s' p = Some x \<or>
         ((v = JUndefined \<or> v = JNull) \<and> map_of s' p = Some (null_after_cast cfg) \<and>
          null_after_cast cfg \<noteq> JNull)"
proof -
  from assms(1,2) consider "s' = s"
    | z where "s' = set_prop p z s" "v = JUndefined \<or> v = JNull" "\<not> allowNull cfg"
        "zero_of_type (attr_type cfg) = Some z"
    by (auto simp: cast_entry_def split: if_splits option.splits)
  then show ?thesis
  proof cases
    case 1
    with assms(3) show ?thesis by simp
  next
    case 2
    have "map_of s' p = Some z" using 2(1) assms(3) by (simp add: set_prop_def update_conv')
    moreover have "null_after_cast cfg = z" using 2(3,4) by (simp add: null_after_cast_def)
    moreover have "z \<noteq> JNull" using 2(4) by (rule zero_not_null)
    ultimately show ?thesis using 2(2) by simp
  qed
qed

lemma cast_entry_null:
  assumes "cast_entry M (p, JNull) s = Inr s'" and "attribute_of M p = Some cfg"
    and "map_of s p = Some JNull"
  shows "map_of s' p = Some (null_after_cast cfg)"
proof -
  from assms(1,2) consider "s' = s" "allowNull cfg \<or> zero_of_type (attr_type cfg) = None"
    | z where "s' = set_prop p z s" "\<not> allowNull cfg" "zero_of_type (attr_type cfg) = Some z"
    by (auto simp: cast_entry_def split: if_splits option.splits)
  then show ?thesis
  proof cases
    case 1
    with assms(3) show ?thesis by (auto simp: null_after_cast_def)
  next
    case 2
    with assms(3) show ?thesis by (simp add: set_prop_def update_conv' null_after_cast_def)
  qed
qed

lemma forEach_cast_stable:
  assumes "forEach (cast_entry M) es s = Inr s'" and "attribute_of M p = Some cfg"
    and "map_of s p = Some (null_after_cast cfg)"
  shows "map_of s' p = Some (null_after_cast cfg)"
  using assms(1,3)
proof (induction es arbitrary: s)
  case Nil
  then show ?case by simp
next
  case (Cons e es)
  obtain k v where e: "e = (k, v)" by (cases e)
  from Cons.prems(1) e obtain s1 where s1: "cast_entry M (k, v) s = Inr s1"
    "forEach (cast_entry M) es s1 = Inr s'"
    by (auto split: sum.splits)
  have "map_of s1 p = Some (null_after_cast cfg)"
  proof (cases "k = p")
    case True
    with cast_entry_same [OF _ assms(2) Cons.prems(2)] s1(1) show ?thesis by auto
  next
    case False
    with cast_entry_other [OF s1(1)] Cons.prems(2) show ?thesis by simp
  qed
  from Cons.IH [OF s1(2) this] show ?case .
qed

lemma forEach_cast_null:
  assumes "forEach (cast_entry M) es s = Inr s'" and "attribute_of M p = Some cfg"
    and "map_of es p = Some JNull" and "map_of s p = Some JNull"
  shows "map_of s' p = Some (null_after_cast cfg)"
  using assms(1,3,4)
proof (induction es arbitrary: s)
  case Nil
  then show ?case by simp
next
  case (Cons e es)
  obtain k v where e: "e = (k, v)" by (cases e)
  from Cons.prems(1) e obtain s1 where s1: "cast_entry M (k, v) s = Inr s1"
    "forEach (cast_entry M) es s1 = Inr s'"
    by (auto split: sum.splits)
  show ?case
  proof (cases "k = p")
    case True
    with Cons.prems(2) e have v: "v = JNull" by simp
    from s1(1) True v have "cast_entry M (p, JNull) s = Inr s1" by simp
    from cast_entry_null [OF this assms(2) Cons.prems(3)]
    have "map_of s1 p = Some (null_after_cast cfg)" .
    from forEach_cast_stable [OF s1(2) assms(2) this] show ?thesis .
  next
    case False
    with Cons.prems(2) e have "map_of es p = Some JNull" by simp
    moreover have "map_of s1 p = Some JNull"
      using cast_entry_other [OF s1(1) False] Cons.prems(3) by simp
    ultimately show ?thesis using Cons.IH [OF s1(2)] by blast
  qed
qed

lemma cast_row_null_key:
  assumes "cast_row E M raw = Inr r" and "attribute_of M p = Some cfg"
    and "get_prop raw p = JNull"
  shows "get_prop r p = null_after_cast cfg"
proof -
  let ?r1 = "withTimestampsCast E raw"
  have loop: "forEach (cast_entry M) ?r1 ?r1 = Inr r"
    using assms(1) by (simp add: cast_row_def Let_def)
  have "map_of ?r1 p = Some JNull"
    using withTimestampsCast_null [OF assms(3)] by (rule get_prop_null_own)
  from forEach_cast_null [OF loop assms(2) this this]
  show ?thesis by (simp add: get_prop_def)
qed

lemma mapE_nth:
  assumes "mapE f xs = Inr ys"
  shows "length ys = length xs \<and> (\<forall>i<length xs. f (xs ! i) = Inr (ys ! i))"
  using assms
proof (induction xs arbitrary: ys)
  case Nil
  then show ?case by simp
next
  case (Cons x xs)
  from Cons.prems obtain y ys' where y: "f x = Inr y" "mapE f xs = Inr ys'" "ys = y # ys'"
    by (auto split: sum.splits)
  from Cons.IH [OF y(2)] y(1,3) show ?case by (auto simp: nth_Cons split: nat.splits)
qed

lemma cast_rows_nth:
  assumes "cast_rows E (Some M) raws = Inr ret"
  shows "length ret = length raws \<and> (\<forall>i<length raws. cast_row E M (raws ! i) = Inr (ret ! i))"
proof -
  let ?f = "\<lambda>r. case withSelectedValuesCast E (Some M) (Some r) of
                 Inl e \<Rightarrow> Inl e
               | Inr None \<Rightarrow> Inr r
               | Inr (Some r') \<Rightarrow> Inr r'"
  have f: "?f r = cast_row E M r" for r
    by (simp add: withSelectedValuesCast_def split: sum.splits)
  from assms have "mapE ?f raws = Inr ret" by (simp add: cast_rows_def)
  from mapE_nth [OF this] show ?thesis by (simp add: f)
qed

lemma strict_eq_null: "strict_eq JNull v = (v = JNull)"
  by (auto simp: strict_eq_def)

lemma find_index_none: "\<forall>x\<in>set xs. \<not> P x \<Longrightarrow> find_index P xs = None"
  by (induction xs) auto

lemma find_index_some: "find_index P xs = Some j \<Longrightarrow> j < length xs"
  by (induction xs arbitrary: j) (auto split: if_splits)

lemma merge_related_step:
  assumes "merge_related E pm p r (rws0, refs0) = Inr (rws1, refs1)"
    and "\<forall>rw\<in>set rws0. get_prop rw ''id'' \<noteq> JNull"
  shows "(\<forall>rw\<in>set rws1. get_prop rw ''id'' \<noteq> JNull) \<and>
         (\<exists>ref. refs1 = refs0 @ [ref] \<and> (get_prop r p = JNull \<longrightarrow> ref = None))"
proof (cases "find_index (\<lambda>rw. strict_eq (get_prop r p) (get_prop rw ''id'')) rws0")
  case None
  with assms show ?thesis by (auto simp: merge_related_def)
next
  case (Some j)
  have j: "j < length rws0" using Some by (rule find_index_some)
  from assms(1) Some obtain rw' where rw': "cast_row E pm (rws0 ! j) = Inr rw'"
    "rws1 = rws0[j := rw']" "refs1 = refs0 @ [Some j]"
    by (auto simp: merge_related_def split: sum.splits)
  have "get_prop (rws0 ! j) ''id'' \<noteq> JNull" using assms(2) j by simp
  from cast_row_id [OF rw'(1) this] have id': "get_prop rw' ''id'' \<noteq> JNull" .
  have inv: "\<forall>rw\<in>set rws1. get_prop rw ''id'' \<noteq> JNull"
  proof
    fix rw assume "rw \<in> set rws1"
    then have "rw \<in> insert rw' (set rws0)"
      using rw'(2) set_update_subset_insert [of rws0 j rw'] by blast
    with id' assms(2) show "get_prop rw ''id'' \<noteq> JNull" by blast
  qed
  have "get_prop r p \<noteq> JNull"
  proof
    assume n: "get_prop r p = JNull"
    have "find_index (\<lambda>rw. strict_eq (get_prop r p) (get_prop rw ''id'')) rws0 = None"
      by (rule find_index_none) (use assms(2) n in \<open>simp add: strict_eq_null\<close>)
    with Some show False by simp
  qed
  with inv rw'(3) show ?thesis by simp
qed

lemma merge_related_null:
  assumes "forEach (merge_related E pm p) ret (rws0, refs0) = Inr (rws, refs)"
    and "\<forall>rw\<in>set rws0. get_prop rw ''id'' \<noteq> JNull"
  shows "length refs = length refs0 + length ret \<and>
         (\<forall>i<length ret. get_prop (ret ! i) p = JNull \<longrightarrow> refs ! (length refs0 + i) = None) \<and>
         take (length refs0) refs = refs0"
  using assms
proof (induction ret arbitrary: rws0 refs0)
  case Nil
  then show ?case by simp
next
  case (Cons r ret)
  from Cons.prems(1) obtain rws1 refs1 where
    step: "merge_related E pm p r (rws0, refs0) = Inr (rws1, refs1)"
    and rest: "forEach (merge_related E pm p) ret (rws1, refs1) = Inr (rws, refs)"
    by (auto split: sum.splits)
  from merge_related_step [OF step Cons.prems(2)] obtain ref where
    inv: "\<forall>rw\<in>set rws1. get_prop rw ''id'' \<noteq> JNull"
    and ref: "refs1 = refs0 @ [ref]" "get_prop r p = JNull \<longrightarrow> ref = None"
    by blast
  from Cons.IH [OF rest inv] have
    len: "length refs = length refs1 + length ret"
    and nulls: "\<forall>i<length ret. get_prop (ret ! i) p = JNull \<longrightarrow> refs ! (length refs1 + i) = None"
    and pre: "take (length refs1) refs = refs1"
    by blast+
  have at: "refs ! length refs0 = ref"
  proof -
    have "refs ! length refs0 = take (length refs1) refs ! length refs0"
      using ref(1) by simp
    also have "\<dots> = ref" using pre ref(1) by simp
    finally show ?thesis .
  qed
  have pre0: "take (length refs0) refs = refs0"
  proof -
    have "take (length refs0) refs = take (length refs0) (take (length refs1) refs)"
      using ref(1) by (simp add: min_def)
    also have "\<dots> = refs0" using pre ref(1) by simp
    finally show ?thesis .
  qed
  have "\<forall>i<length (r # ret). get_prop ((r # ret) ! i) p = JNull \<longrightarrow> refs ! (length refs0 + i) = None"
  proof (intro allI impI)
    fix i assume i: "i < length (r # ret)" and n: "get_prop ((r # ret) ! i) p = JNull"
    show "refs ! (length refs0 + i) = None"
    proof (cases i)
      case 0
      with n ref(2) at show ?thesis by simp
    next
      case (Suc k)
      with i n nulls ref(1) show ?thesis by simp
    qed
  qed
  with len ref(1) pre0 show ?case by simp
qed

lemma intercepted_not_resolved: "intercepted opts err \<noteq> Resolved v"
  by (simp add: intercepted_def split: option.splits handler.splits sum.splits jsval.splits)

lemma thenB_run_statement:
  assumes "buildOrderByQuery E (opt_orderBy (b_opts b)) = Inr orderByQuery"
    and "acquire E (b_opts b) w = (Inr c, w1)"
  shows "thenB E b w =
     (case run_statement E (b_opts b) c (statement_text E b orderByQuery) (statement_args E b) w1 of
        (r, w2) \<Rightarrow> ((case r of Inl err \<Rightarrow> intercepted (b_opts b) err | Inr v \<Rightarrow> Resolved v),
                    if opt_client (b_opts b) = None then release c w2 else w2))"
  using assms by (simp add: thenB_def attempt_def try_block_def split: prod.splits)

lemma run_statement_populate_single:
  assumes "client_query E w c sql args = Inr result"
    and "opt_returnSingleRow opts \<or> (opt_fetch opts \<and> opt_single opts)"
    and "rows result = raw # rest" and "cast_row E M raw = Inr r"
    and "populate_of opts = Some p" and "opt_Model opts = Some M"
  shows "run_statement E opts c sql args w = populate_single E M p c (Some r) (w @ [Sent c sql args])"
  using assms by (simp add: run_statement_def query_def first_row_def withSelectedValuesCast_def)

lemma run_statement_populate_multi:
  assumes "client_query E w c sql args = Inr result"
    and "\<not> (opt_returnSingleRow opts \<or> (opt_fetch opts \<and> opt_single opts))"
    and "opt_returnRows opts \<or> opt_fetch opts"
    and "cast_rows E (Some M) (rows result) = Inr ret"
    and "populate_of opts = Some p" and "opt_Model opts = Some M"
  shows "run_statement E opts c sql args w = populate_multi E M p c ret (w @ [Sent c sql args])"
  using assms by (auto simp: run_statement_def query_def)

lemma populate_single_sent:
  assumes "attribute_of M p = Some cfg"
    and "getModelWithName E (attr_model cfg) = Inr populateModel"
  shows "snd (populate_single E M p c (Some r) w) =
       w @ [Sent c (''SELECT * FROM '' @ fmt_ident E (tableName populateModel) @ '' WHERE id=$1'')
              (Some [get_prop r p])]"
  using assms by (simp add: populate_single_def query_def split: sum.splits)

lemma populate_single_no_row:
  assumes "attribute_of M p = Some cfg"
    and "getModelWithName E (attr_model cfg) = Inr populateModel"
    and "client_query E w c
              (''SELECT * FROM '' @ fmt_ident E (tableName populateModel) @ '' WHERE id=$1'')
              (Some [get_prop r p]) = Inr res"
    and "rows res = []"
  shows "fst (populate_single E M p c (Some r) w) = Inr (Value (JObj (set_prop p JUndefined r)))"
  using assms
  by (simp add: populate_single_def query_def first_row_def withSelectedValuesCast_def row_value_def)

lemma populate_multi_sent:
  assumes "attribute_of M p = Some cfg"
    and "getModelWithName E (attr_model cfg) = Inr populateModel"
  shows "snd (populate_multi E M p c ret w) =
       w @ [Sent c (''SELECT * FROM '' @ fmt_ident E (tableName populateModel) @ '' WHERE id=ANY($1)'')
              (Some [JArr (map (\<lambda>r. get_prop r p) ret)])]"
  using assms by (simp add: populate_multi_def query_def Let_def split: sum.splits prod.splits)

lemma populate_multi_null_keys:
  assumes "attribute_of M p = Some cfg"
    and "getModelWithName E (attr_model cfg) = Inr populateModel"
    and "client_query E w c
              (''SELECT * FROM '' @ fmt_ident E (tableName populateModel) @ '' WHERE id=ANY($1)'')
              (Some [JArr (map (\<lambda>r. get_prop r p) ret)]) = Inr res"
    and inv: "\<forall>rw\<in>set (rows res). get_prop rw ''id'' \<noteq> JNull"
    and "fst (populate_multi E M p c ret w) = Inr (Value v)"
  shows "\<exists>vs. v = JArr vs \<and> length vs = length ret \<and>
           (\<forall>i<length ret. get_prop (ret ! i) p = JNull \<longrightarrow>
              vs ! i = JObj (set_prop p JUndefined (ret ! i)))"
proof -
  from assms(1,2,3,5) obtain rws refs where
    loop: "forEach (merge_related E populateModel p) ret (rows res, []) = Inr (rws, refs)"
    and v: "v = JArr (map2 (populated p rws) ret refs)"
    by (auto simp: populate_multi_def query_def Let_def split: sum.splits prod.splits)
  from merge_related_null [OF loop inv] have
    len: "length refs = length ret"
    and nulls: "\<forall>i<length ret. get_prop (ret ! i) p = JNull \<longrightarrow> refs ! i = None"
    by simp_all
  have "\<forall>i<length ret. get_prop (ret ! i) p = JNull \<longrightarrow>
          map2 (populated p rws) ret refs ! i = JObj (set_prop p JUndefined (ret ! i))"
    using len nulls by (simp add: populated_def)
  moreover have "length (map2 (populated p rws) ret refs) = length ret" using len by simp
  ultimately show ?thesis using v by blast
qed

text \<open>\<^verbatim>\<open>populate(prop)\<close> with a non-empty name is what makes \<^verbatim>\<open>opts.populate\<close> truthy;
  it leaves the model of the builder as it is.\<close>

lemma populate_sets_option:
  "prop \<noteq> [] \<Longrightarrow>
     populate_of (b_opts (populate prop b)) = Some prop \<and>
     opt_Model (b_opts (populate prop b)) = opt_Model (b_opts b)"
  by (simp add: populate_of_def populate_def)

text \<open>
  Claim C2, as the code has it: a forced builder that has its connection \<open>c\<close>, whose
  statement the storage answers with \<open>result\<close>, and that populates an attribute \<open>p\<close>
  the model declares with a related model that is found. The result rows are cast before
  the lookup is built, so the lookup is bound to the keys as they stand after the cast; a
  key that was \<^verbatim>\<open>null\<close> in the result is \<open>null_after_cast cfg\<close> then.
  \<^item> Single-row mode, when the result has a first row \<open>raw\<close> and its cast is \<open>r\<close>:
    after the statement the lookup is always sent, once, on \<open>c\<close>, with the key of
    \<open>r\<close> as its one argument, whatever that value is, and nothing else is sent; when
    the lookup returns no row the builder resolves with \<open>r\<close>, its populated field
    \<^verbatim>\<open>undefined\<close>.
  \<^item> Multi-row mode, when the cast of the rows is \<open>ret\<close>: after the statement the one
    lookup is sent on \<open>c\<close> with the array of the keys of all records of \<open>ret\<close>, in
    their order, nulls and repetitions included; when no returned row has a null
    \<^verbatim>\<open>id\<close> and the builder resolves, it resolves with one record for every row, and
    every record whose key is \<^verbatim>\<open>null\<close> after the cast has the populated field
    \<^verbatim>\<open>undefined\<close>.
\<close>

theorem populate_request_lookup:
  assumes ob: "buildOrderByQuery E (opt_orderBy (b_opts b)) = Inr orderByQuery"
    and acq: "acquire E (b_opts b) w = (Inr c, w1)"
    and q: "client_query E w1 c (statement_text E b orderByQuery) (statement_args E b) = Inr result"
    and pop: "populate_of (b_opts b) = Some p"
    and mdl: "opt_Model (b_opts b) = Some M"
    and attr: "attribute_of M p = Some cfg"
    and rel: "getModelWithName E (attr_model cfg) = Inr populateModel"
  shows
    "((opt_returnSingleRow (b_opts b) \<or> (opt_fetch (b_opts b) \<and> opt_single (b_opts b))) \<and>
      rows result = raw # rest \<and> cast_row E M raw = Inr r \<longrightarrow>
        snd (thenB E b w) =
          w1 @ [Sent c (statement_text E b orderByQuery) (statement_args E b),
                Sent c (''SELECT * FROM '' @ fmt_ident E (tableName populateModel) @ '' WHERE id=$1'')
                  (Some [get_prop r p])] @
          (if opt_client (b_opts b) = None then [Released c] else []) \<and>
        (get_prop raw p = JNull \<longrightarrow> get_prop r p = null_after_cast cfg) \<and>
        (client_query E (w1 @ [Sent c (statement_text E b orderByQuery) (statement_args E b)]) c
             (''SELECT * FROM '' @ fmt_ident E (tableName populateModel) @ '' WHERE id=$1'')
             (Some [get_prop r p]) = Inr res1 \<and> rows res1 = [] \<longrightarrow>
           fst (thenB E b w) = Resolved (Value (JObj (set_prop p JUndefined r))))) \<and>
     (\<not> (opt_returnSingleRow (b_opts b) \<or> (opt_fetch (b_opts b) \<and> opt_single (b_opts b))) \<and>
      (opt_returnRows (b_opts b) \<or> opt_fetch (b_opts b)) \<and>
      cast_rows E (Some M) (rows result) = Inr ret \<longrightarrow>
        snd (thenB E b w) =
          w1 @ [Sent c (statement_text E b orderByQuery) (statement_args E b),
                Sent c (''SELECT * FROM '' @ fmt_ident E (tableName populateModel) @ '' WHERE id=ANY($1)'')
                  (Some [JArr (map (\<lambda>r. get_prop r p) ret)])] @
          (if opt_client (b_opts b) = None then [Released c] else []) \<and>
        length ret = length (rows result) \<and>
        (\<forall>i<length ret. get_prop (rows result ! i) p = JNull \<longrightarrow>
           get_prop (ret ! i) p = null_after_cast cfg) \<and>
        (client_query E (w1 @ [Sent c (statement_text E b orderByQuery) (statement_args E b)]) c
             (''SELECT * FROM '' @ fmt_ident E (tableName populateModel) @ '' WHERE id=ANY($1)'')
             (Some [JArr (map (\<lambda>r. get_prop r p) ret)]) = Inr resN \<and>
         (\<forall>rw\<in>set (rows resN). get_prop rw ''id'' \<noteq> JNull) \<and>
         fst (thenB E b w) = Resolved (Value v) \<longrightarrow>
           (\<exists>vs. v = JArr vs \<and> length vs = length ret \<and>
              (\<forall>i<length ret. get_prop (ret ! i) p = JNull \<longrightarrow>
                 vs ! i = JObj (set_prop p JUndefined (ret ! i))))))"
proof (intro conjI impI)
  let ?sql = "statement_text E b orderByQuery"
  let ?args = "statement_args E b"
  let ?w2 = "w1 @ [Sent c ?sql ?args]"
  let ?one = "''SELECT * FROM '' @ fmt_ident E (tableName populateModel) @ '' WHERE id=$1''"
  let ?any = "''SELECT * FROM '' @ fmt_ident E (tableName populateModel) @ '' WHERE id=ANY($1)''"
  note run = thenB_run_statement [OF ob acq]
  {
    assume a: "(opt_returnSingleRow (b_opts b) \<or> (opt_fetch (b_opts b) \<and> opt_single (b_opts b))) \<and>
      rows result = raw # rest \<and> cast_row E M raw = Inr r"
    then have single: "opt_returnSingleRow (b_opts b) \<or> (opt_fetch (b_opts b) \<and> opt_single (b_opts b))"
      and rws: "rows result = raw # rest" and cast: "cast_row E M raw = Inr r"
      by blast+
    note rs = run_statement_populate_single [OF q single rws cast pop mdl]
    have th: "thenB E b w =
        ((case fst (populate_single E M p c (Some r) ?w2) of
            Inl err \<Rightarrow> intercepted (b_opts b) err | Inr v \<Rightarrow> Resolved v),
         if opt_client (b_opts b) = None
         then release c (snd (populate_single E M p c (Some r) ?w2))
         else snd (populate_single E M p c (Some r) ?w2))"
      by (simp add: run rs split_beta)
    show "snd (thenB E b w) =
          w1 @ [Sent c ?sql ?args, Sent c ?one (Some [get_prop r p])] @
          (if opt_client (b_opts b) = None then [Released c] else [])"
      by (simp add: th populate_single_sent [OF attr rel] release_def)
    {
      assume "get_prop raw p = JNull"
      from cast_row_null_key [OF cast attr this]
      show "get_prop r p = null_after_cast cfg" .
    }
    {
      assume "client_query E ?w2 c ?one (Some [get_prop r p]) = Inr res1 \<and> rows res1 = []"
      then have "client_query E ?w2 c ?one (Some [get_prop r p]) = Inr res1" and "rows res1 = []"
        by blast+
      from populate_single_no_row [OF attr rel this]
      show "fst (thenB E b w) = Resolved (Value (JObj (set_prop p JUndefined r)))"
        by (simp add: th)
    }
  }
  {
    assume a: "\<not> (opt_returnSingleRow (b_opts b) \<or> (opt_fetch (b_opts b) \<and> opt_single (b_opts b))) \<and>
      (opt_returnRows (b_opts b) \<or> opt_fetch (b_opts b)) \<and>
      cast_rows E (Some M) (rows result) = Inr ret"
    then have multi: "\<not> (opt_returnSingleRow (b_opts b) \<or> (opt_fetch (b_opts b) \<and> opt_single (b_opts b)))"
      and rr: "opt_returnRows (b_opts b) \<or> opt_fetch (b_opts b)"
      and cast: "cast_rows E (Some M) (rows result) = Inr ret"
      by blast+
    note rs = run_statement_populate_multi [OF q multi rr cast pop mdl]
    have th: "thenB E b w =
        ((case fst (populate_multi E M p c ret ?w2) of
            Inl err \<Rightarrow> intercepted (b_opts b) err | Inr v \<Rightarrow> Resolved v),
         if opt_client (b_opts b) = None
         then release c (snd (populate_multi E M p c ret ?w2))
         else snd (populate_multi E M p c ret ?w2))"
      by (simp add: run rs split_beta)
    show "snd (thenB E b w) =
          w1 @ [Sent c ?sql ?args, Sent c ?any (Some [JArr (map (\<lambda>r. get_prop r p) ret)])] @
          (if opt_client (b_opts b) = None then [Released c] else [])"
      by (simp add: th populate_multi_sent [OF attr rel] release_def)
    from cast_rows_nth [OF cast] have len: "length ret = length (rows result)"
      and each: "\<forall>i<length (rows result). cast_row E M (rows result ! i) = Inr (ret ! i)"
      by blast+
    show "length ret = length (rows result)" by (rule len)
    show "\<forall>i<length ret. get_prop (rows result ! i) p = JNull \<longrightarrow>
           get_prop (ret ! i) p = null_after_cast cfg"
    proof (intro allI impI)
      fix i
      assume i: "i < length ret" and n: "get_prop (rows result ! i) p = JNull"
      from each i len have "cast_row E M (rows result ! i) = Inr (ret ! i)" by simp
      from cast_row_null_key [OF this attr n]
      show "get_prop (ret ! i) p = null_after_cast cfg" .
    qed
    {
      assume b: "client_query E ?w2 c ?any (Some [JArr (map (\<lambda>r. get_prop r p) ret)]) = Inr resN \<and>
         (\<forall>rw\<in>set (rows resN). get_prop rw ''id'' \<noteq> JNull) \<and>
         fst (thenB E b w) = Resolved (Value v)"
      then have lookup: "client_query E ?w2 c ?any (Some [JArr (map (\<lambda>r. get_prop r p) ret)]) = Inr resN"
        and inv: "\<forall>rw\<in>set (rows resN). get_prop rw ''id'' \<noteq> JNull"
        and out: "fst (thenB E b w) = Resolved (Value v)"
        by blast+
      from out have "fst (populate_multi E M p c ret ?w2) = Inr (Value v)"
        by (simp add: th intercepted_not_resolved split: sum.splits)
      from populate_multi_null_keys [OF attr rel lookup inv this]
      show "\<exists>vs. v = JArr vs \<and> length vs = length ret \<and>
              (\<forall>i<length ret. get_prop (ret ! i) p = JNull \<longrightarrow>
                 vs ! i = JObj (set_prop p JUndefined (ret ! i)))" .
    }
  }
qed

lemma ex_rel_attr:
  "attribute_of ex_WithRelationship ''my_simple'' = Some (cfg0\<lparr> attr_model := Some ''Simple'' \<rparr>)"
  by code_simp

lemma ex_rel_model:
  "getModelWithName ex_env_rel (attr_model (cfg0\<lparr> attr_model := Some ''Simple'' \<rparr>)) = Inr ex_SimpleM"
  by code_simp

lemma ex_rel_table: "fmt_ident ex_env_rel (tableName ex_SimpleM) = ''simple''"
  by code_simp

lemma ex_one_orderBy: "buildOrderByQuery ex_env_rel (opt_orderBy (b_opts ex_findOne_populate)) = Inr []"
  by code_simp

lemma ex_one_acquire: "acquire ex_env_rel (b_opts ex_findOne_populate) [] = (Inr 0, [Leased 0])"
  by code_simp

lemma ex_one_args: "statement_args ex_env_rel ex_findOne_populate = Some [JNum 3]"
  by code_simp

lemma ex_one_result:
  "client_query ex_env_rel [Leased 0] 0
     (statement_text ex_env_rel ex_findOne_populate []) (statement_args ex_env_rel ex_findOne_populate) =
   Inr \<lparr> rows = [[(''id'', JNum 3), (''name'', JStr ''owns_nothing''), (''my_simple'', JNull)]],
         rowCount = 0 \<rparr>"
  by code_simp

lemma ex_one_populate: "populate_of (b_opts ex_findOne_populate) = Some ''my_simple''"
  by code_simp

lemma ex_one_Model: "opt_Model (b_opts ex_findOne_populate) = Some ex_WithRelationship"
  by code_simp

lemma ex_one_unbound: "opt_client (b_opts ex_findOne_populate) = None"
  by code_simp

lemma ex_one_mode: "opt_returnSingleRow (b_opts ex_findOne_populate)"
  by code_simp

lemma ex_one_cast:
  "cast_row ex_env_rel ex_WithRelationship
     [(''id'', JNum 3), (''name'', JStr ''owns_nothing''), (''my_simple'', JNull)] =
   Inr [(''id'', JNum 3), (''name'', JStr ''owns_nothing''), (''my_simple'', JNull)]"
  by code_simp

lemma ex_one_lookup:
  "client_query ex_env_rel
     ([Leased 0] @ [Sent 0 (statement_text ex_env_rel ex_findOne_populate []) (Some [JNum 3])]) 0
     ''SELECT * FROM simple WHERE id=$1'' (Some [JNull]) =
   Inr \<lparr> rows = [], rowCount = 0 \<rparr>"
  by code_simp

lemma ex_all_orderBy: "buildOrderByQuery ex_env_rel (opt_orderBy (b_opts ex_find_populate)) = Inr []"
  by code_simp

lemma ex_all_acquire: "acquire ex_env_rel (b_opts ex_find_populate) [] = (Inr 0, [Leased 0])"
  by code_simp

lemma ex_all_args: "statement_args ex_env_rel ex_find_populate = Some []"
  by code_simp

lemma ex_all_result:
  "client_query ex_env_rel [Leased 0] 0
     (statement_text ex_env_rel ex_find_populate []) (statement_args ex_env_rel ex_find_populate) =
   Inr \<lparr> rows = ex_owner_rows, rowCount = 3 \<rparr>"
  by code_simp

lemma ex_all_populate: "populate_of (b_opts ex_find_populate) = Some ''my_simple''"
  by code_simp

lemma ex_all_Model: "opt_Model (b_opts ex_find_populate) = Some ex_WithRelationship"
  by code_simp

lemma ex_all_unbound: "opt_client (b_opts ex_find_populate) = None"
  by code_simp

lemma ex_all_mode:
  "\<not> (opt_returnSingleRow (b_opts ex_find_populate) \<or>
      (opt_fetch (b_opts ex_find_populate) \<and> opt_single (b_opts ex_find_populate))) \<and>
   (opt_returnRows (b_opts ex_find_populate) \<or> opt_fetch (b_opts ex_find_populate))"
  by code_simp

lemma ex_all_cast: "cast_rows ex_env_rel (Some ex_WithRelationship) ex_owner_rows = Inr ex_owner_rows"
  by code_simp

lemma ex_all_keys: "map (\<lambda>r. get_prop r ''my_simple'') ex_owner_rows = [JNum 1, JNum 1, JNull]"
  by code_simp

lemma ex_all_lookup:
  "client_query ex_env_rel
     ([Leased 0] @ [Sent 0 (statement_text ex_env_rel ex_find_populate []) (Some [])]) 0
     ''SELECT * FROM simple WHERE id=ANY($1)'' (Some [JArr [JNum 1, JNum 1, JNull]]) =
   Inr \<lparr> rows = [[(''id'', JNum 1), (''name'', JStr ''alice'')]], rowCount = 0 \<rparr>"
  by code_simp

lemma ex_all_resolved:
  "fst (thenB ex_env_rel ex_find_populate []) =
     Resolved (Value (JArr
       [JObj [(''id'', JNum 1), (''name'', JStr ''alice_owner''),
              (''my_simple'', JObj [(''id'', JNum 1), (''name'', JStr ''alice'')])],
        JObj [(''id'', JNum 2), (''name'', JStr ''alice_too''),
              (''my_simple'', JObj [(''id'', JNum 1), (''name'', JStr ''alice'')])],
        JObj [(''id'', JNum 3), (''name'', JStr ''owns_nothing''), (''my_simple'', JUndefined)]]))"
  by code_simp

text \<open>
  Claim C2, at \<^verbatim>\<open>findOne(3).populate('my_simple')\<close> for the owner without a related
  record, and at \<^verbatim>\<open>find().populate('my_simple')\<close> for the three owners together.
\<close>

theorem populate_request_lookup_witness:
  "snd (thenB ex_env_rel ex_findOne_populate []) =
     [Leased 0,
      Sent 0 (statement_text ex_env_rel ex_findOne_populate []) (Some [JNum 3]),
      Sent 0 ''SELECT * FROM simple WHERE id=$1'' (Some [JNull]),
      Released 0] \<and>
   fst (thenB ex_env_rel ex_findOne_populate []) =
     Resolved (Value (JObj [(''id'', JNum 3), (''name'', JStr ''owns_nothing''), (''my_simple'', JUndefined)])) \<and>
   snd (thenB ex_env_rel ex_find_populate []) =
     [Leased 0,
      Sent 0 (statement_text ex_env_rel ex_find_populate []) (Some []),
      Sent 0 ''SELECT * FROM simple WHERE id=ANY($1)'' (Some [JArr [JNum 1, JNum 1, JNull]]),
      Released 0] \<and>
   (\<exists>vs. fst (thenB ex_env_rel ex_find_populate []) = Resolved (Value (JArr vs)) \<and>
      length vs = 3 \<and>
      vs ! 2 = JObj [(''id'', JNum 3), (''name'', JStr ''owns_nothing''), (''my_simple'', JUndefined)]) \<and>
   null_after_cast (cfg0\<lparr> attr_model := Some ''Simple'' \<rparr>) = JNull \<and>
   get_prop (ex_owner_rows ! 2) ''my_simple'' = null_after_cast (cfg0\<lparr> attr_model := Some ''Simple'' \<rparr>)"
proof -
  let ?r3 = "[(''id'', JNum 3), (''name'', JStr ''owns_nothing''), (''my_simple'', JNull)]"
  let ?alice = "[(''id'', JNum 1), (''name'', JStr ''alice'')]"
  let ?v = "JArr
       [JObj [(''id'', JNum 1), (''name'', JStr ''alice_owner''), (''my_simple'', JObj ?alice)],
        JObj [(''id'', JNum 2), (''name'', JStr ''alice_too''), (''my_simple'', JObj ?alice)],
        JObj [(''id'', JNum 3), (''name'', JStr ''owns_nothing''), (''my_simple'', JUndefined)]]"
  have sql1: "''SELECT * FROM '' @ ''simple'' @ '' WHERE id=$1'' = ''SELECT * FROM simple WHERE id=$1''"
    and sqlN: "''SELECT * FROM '' @ ''simple'' @ '' WHERE id=ANY($1)'' = ''SELECT * FROM simple WHERE id=ANY($1)''"
    by simp_all
  have fk: "get_prop ?r3 ''my_simple'' = JNull" by (simp add: get_prop_def)
  have up: "set_prop ''my_simple'' JUndefined ?r3 =
            [(''id'', JNum 3), (''name'', JStr ''owns_nothing''), (''my_simple'', JUndefined)]"
    by (simp add: set_prop_def)
  have tail: "(if None = (None :: client option) then [Released 0] else []) = [Released 0]" by simp
  note one = populate_request_lookup
      [where raw = ?r3 and rest = "[]" and r = ?r3 and ?res1.0 = "\<lparr> rows = [], rowCount = 0 \<rparr>",
       OF ex_one_orderBy ex_one_acquire ex_one_result ex_one_populate ex_one_Model ex_rel_attr ex_rel_model,
       THEN conjunct1, unfolded ex_rel_table sql1 ex_one_unbound ex_one_args fk tail]
  have "(opt_returnSingleRow (b_opts ex_findOne_populate) \<or>
         (opt_fetch (b_opts ex_findOne_populate) \<and> opt_single (b_opts ex_findOne_populate))) \<and>
        rows \<lparr> rows = [?r3], rowCount = 0 \<rparr> = ?r3 # [] \<and>
        cast_row ex_env_rel ex_WithRelationship ?r3 = Inr ?r3"
    using ex_one_mode ex_one_cast by simp
  note one' = one [THEN mp, OF this]
  from one' [THEN conjunct1]
  have 1: "snd (thenB ex_env_rel ex_findOne_populate []) =
     [Leased 0,
      Sent 0 (statement_text ex_env_rel ex_findOne_populate []) (Some [JNum 3]),
      Sent 0 ''SELECT * FROM simple WHERE id=$1'' (Some [JNull]),
      Released 0]"
    by simp
  have "client_query ex_env_rel
          ([Leased 0] @ [Sent 0 (statement_text ex_env_rel ex_findOne_populate []) (Some [JNum 3])]) 0
          ''SELECT * FROM simple WHERE id=$1'' (Some [JNull]) = Inr \<lparr> rows = [], rowCount = 0 \<rparr> \<and>
        rows \<lparr> rows = [], rowCount = 0 \<rparr> = []"
    using ex_one_lookup by simp
  from one' [THEN conjunct2, THEN conjunct2, THEN mp, OF this]
  have 2: "fst (thenB ex_env_rel ex_findOne_populate []) =
     Resolved (Value (JObj [(''id'', JNum 3), (''name'', JStr ''owns_nothing''), (''my_simple'', JUndefined)]))"
    by (simp only: up)
  from one' [THEN conjunct2, THEN conjunct1]
  have 6: "null_after_cast (cfg0\<lparr> attr_model := Some ''Simple'' \<rparr>) = JNull"
    by simp
  note many = populate_request_lookup
      [where ret = ex_owner_rows and resN = "\<lparr> rows = [?alice], rowCount = 0 \<rparr>" and v = ?v,
       OF ex_all_orderBy ex_all_acquire ex_all_result ex_all_populate ex_all_Model ex_rel_attr ex_rel_model,
       THEN conjunct2, unfolded ex_rel_table sqlN ex_all_unbound ex_all_args ex_all_keys tail]
  have "\<not> (opt_returnSingleRow (b_opts ex_find_populate) \<or>
           (opt_fetch (b_opts ex_find_populate) \<and> opt_single (b_opts ex_find_populate))) \<and>
        (opt_returnRows (b_opts ex_find_populate) \<or> opt_fetch (b_opts ex_find_populate)) \<and>
        cast_rows ex_env_rel (Some ex_WithRelationship) (rows \<lparr> rows = ex_owner_rows, rowCount = 3 \<rparr>) =
          Inr ex_owner_rows"
    using ex_all_mode ex_all_cast by simp
  note many' = many [THEN mp, OF this]
  from many' [THEN conjunct1]
  have 3: "snd (thenB ex_env_rel ex_find_populate []) =
     [Leased 0,
      Sent 0 (statement_text ex_env_rel ex_find_populate []) (Some []),
      Sent 0 ''SELECT * FROM simple WHERE id=ANY($1)'' (Some [JArr [JNum 1, JNum 1, JNull]]),
      Released 0]"
    by simp
  have "client_query ex_env_rel
          ([Leased 0] @ [Sent 0 (statement_text ex_env_rel ex_find_populate []) (Some [])]) 0
          ''SELECT * FROM simple WHERE id=ANY($1)'' (Some [JArr [JNum 1, JNum 1, JNull]]) =
          Inr \<lparr> rows = [?alice], rowCount = 0 \<rparr> \<and>
        (\<forall>rw\<in>set (rows \<lparr> rows = [?alice], rowCount = 0 \<rparr>). get_prop rw ''id'' \<noteq> JNull) \<and>
        fst (thenB ex_env_rel ex_find_populate []) = Resolved (Value ?v)"
    using ex_all_lookup ex_all_resolved by (simp add: get_prop_def)
  from many' [THEN conjunct2, THEN conjunct2, THEN conjunct2, THEN mp, OF this]
  obtain vs where vs: "?v = JArr vs" and len: "length vs = length ex_owner_rows"
    and n: "\<forall>i<length ex_owner_rows. get_prop (ex_owner_rows ! i) ''my_simple'' = JNull \<longrightarrow>
              vs ! i = JObj (set_prop ''my_simple'' JUndefined (ex_owner_rows ! i))"
    by blast
  have lt2: "2 < length ex_owner_rows" and fk2: "get_prop (ex_owner_rows ! 2) ''my_simple'' = JNull"
    and r3: "ex_owner_rows ! 2 = ?r3" and l3: "length ex_owner_rows = 3"
    by (simp_all add: ex_owner_rows_def get_prop_def)
  with n have "vs ! 2 = JObj (set_prop ''my_simple'' JUndefined (ex_owner_rows ! 2))" by blast
  then have 4: "vs ! 2 = JObj [(''id'', JNum 3), (''name'', JStr ''owns_nothing''), (''my_simple'', JUndefined)]"
    by (simp only: r3 up)
  have 5: "fst (thenB ex_env_rel ex_find_populate []) = Resolved (Value (JArr vs))"
    using ex_all_resolved vs by simp
  note m3 = many' [THEN conjunct2, THEN conjunct2, THEN conjunct1, rule_format, of 2]
  have 7: "get_prop (ex_owner_rows ! 2) ''my_simple'' =
             null_after_cast (cfg0\<lparr> attr_model := Some ''Simple'' \<rparr>)"
    using m3 lt2 fk2 by simp
  from 1 2 3 4 5 6 7 len l3 show ?thesis by auto
qed

text \<open>When the relation attribute declares the type \<^verbatim>\<open>number\<close> and does not allow
  \<^verbatim>\<open>null\<close>, the cast has turned the \<^verbatim>\<open>null\<close> key of the owner into \<open>0\<close> before
  the lookup is built, and the lookup asks for the record with the id \<open>0\<close>.\<close>

lemma typed_relation_null_key_cast:
  "snd (thenB ex_env_rel ex_findOne_typed []) =
     [Leased 0,
      Sent 0 (statement_text ex_env_rel ex_findOne_typed []) (Some [JNum 3]),
      Sent 0 ''SELECT * FROM simple WHERE id=$1'' (Some [JNum 0]),
      Released 0]"
  by code_simp

end
